theory Spec2Isabelle
  imports Complex_Main "HOL-Library.AList"
begin

section \<open>Data model\<close>

text \<open>
  Job identifiers, file names and file contents are strings. A file's size is the length
  of its content.
\<close>

type_synonym job_id = string
type_synonym bytes = string

text \<open>
  JSON values as Python's \<^verbatim>\<open>json\<close> module reads and writes them. A Python dict keeps
  its keys in insertion order, so an object is an association list. \<open>JTime t\<close> stands for
  the string \<^verbatim>\<open>datetime.isoformat()\<close> of the UTC instant \<open>t\<close> (microseconds since the
  epoch); \<open>JFloat\<close> holds the exact value of a float.
\<close>

datatype json =
    JNull
  | JBool bool
  | JInt int
  | JFloat rat
  | JStr string
  | JTime nat
  | JList "json list"
  | JObj "(string \<times> json) list"

type_synonym dict = "(string \<times> json) list"

text \<open>\<^verbatim>\<open>d.get(k)\<close> and \<^verbatim>\<open>d.update(other)\<close>: an existing key keeps its place, a new key
  is appended.\<close>

definition dict_get :: "dict \<Rightarrow> string \<Rightarrow> json option" where
  "dict_get d k = map_of d k"

definition dict_update :: "dict \<Rightarrow> dict \<Rightarrow> dict" where
  "dict_update d other = fold (\<lambda>(k, v). AList.update k v) other d"

text \<open>A dict display \<^verbatim>\<open>{k1: v1, ..., **kwargs}\<close>: later keys override earlier ones.\<close>

definition dict_literal :: "dict \<Rightarrow> dict" where
  "dict_literal kvs = dict_update [] kvs"

text \<open>Decimal digits of a number: \<^verbatim>\<open>f"{i}"\<close> and \<^verbatim>\<open>f"{i:04d}"\<close>.\<close>

function nat_str :: "nat \<Rightarrow> string" where
  "nat_str n = (if n < 10 then [char_of (48 + n)] else nat_str (n div 10) @ [char_of (48 + n mod 10)])"
  by pat_completeness auto
termination
  by (relation "measure id") auto

definition pad4 :: "nat \<Rightarrow> string" where
  "pad4 i = replicate (4 - length (nat_str i)) (CHR ''0'') @ nat_str i"

text \<open>
  A status file on disk. \<^verbatim>\<open>open(path, "w")\<close> creates the file or truncates it to zero
  bytes; the document is there once \<^verbatim>\<open>json.dump\<close> has run and the file is closed.
\<close>

datatype file_content = Truncated | Document dict

text \<open>
  Python exceptions: the class name, \<^verbatim>\<open>str(exc)\<close>, and the stack frames that
  \<^verbatim>\<open>traceback.format_exc()\<close> prints for it. \<open>Exn\<close> is an exception whose class derives
  from \<^verbatim>\<open>Exception\<close>. \<open>BaseExn\<close> is one whose class derives from \<^verbatim>\<open>BaseException\<close>
  only (\<^verbatim>\<open>SystemExit\<close>, \<^verbatim>\<open>KeyboardInterrupt\<close>, \<^verbatim>\<open>GeneratorExit\<close>): a handler
  \<^verbatim>\<open>except Exception\<close> does not catch it.
\<close>

datatype exn =
    is_Exception: Exn (exn_type: string) (exn_str: string) (exn_frames: string)
  | BaseExn (exn_type: string) (exn_str: string) (exn_frames: string)

definition JSONDecodeError :: exn where
  "JSONDecodeError = Exn ''json.decoder.JSONDecodeError''
     ''Expecting value: line 1 column 1 (char 0)'' []"

text \<open>
  The per-job workspace directory \<^verbatim>\<open>workspaces/<job_id>/\<close>: the staged images (file name
  and content), the mask files written for them, and the stage directories created in it.
\<close>

record workspace =
  images :: "(string \<times> bytes) list"
  masks :: "string list"
  subdirs :: "string list"

text \<open>
  Everything under \<^verbatim>\<open>settings.STORAGE_ROOT\<close>, the broker queue and the clock. Time does
  not run backwards: \<open>now\<close> is the latest reading of \<^verbatim>\<open>datetime.utcnow()\<close>, \<open>ticks\<close>
  counts the readings made so far, and reading number \<open>k\<close> comes \<open>elapse k\<close> after the one
  before. \<open>status_log\<close> is a history variable: every document written to a status file,
  in order, which is what successive polls of the status file can observe.
\<close>

record world =
  workspaces :: "job_id \<rightharpoonup> workspace"
  artifacts :: "string \<rightharpoonup> bytes"
  status_files :: "job_id \<rightharpoonup> file_content"
  queue :: "(job_id \<times> json) list"
  now :: nat
  elapse :: "nat \<Rightarrow> nat"
  ticks :: nat
  status_log :: "(job_id \<times> dict) list"

definition utcnow :: "world \<Rightarrow> nat \<times> world" where
  "utcnow w =
     (let t = now w + elapse w (ticks w)
      in (t, w\<lparr>now := t, ticks := Suc (ticks w)\<rparr>))"

section \<open>Status store\<close>

text \<open>\<^verbatim>\<open>open(status_file, "w")\<close> and \<^verbatim>\<open>json.dump(status_data, f, indent=2)\<close> up to the
  close of the file.\<close>

definition open_w :: "job_id \<Rightarrow> world \<Rightarrow> world" where
  "open_w job_id w = w\<lparr>status_files := (status_files w)(job_id \<mapsto> Truncated)\<rparr>"

definition json_dump :: "job_id \<Rightarrow> dict \<Rightarrow> world \<Rightarrow> world" where
  "json_dump job_id status_data w =
     w\<lparr>status_files := (status_files w)(job_id \<mapsto> Document status_data),
       status_log := status_log w @ [(job_id, status_data)]\<rparr>"

text \<open>
  The statement \<^verbatim>\<open>with open(status_file, "w") as f: json.dump(status_data, f, indent=2)\<close>
  is two operations on the file, one after the other. Another process that reads the
  status file, or the end of this one, may come before, between or after them:
  \<open>observable\<close> lists the states of the store in which it can find it.
\<close>

datatype file_op = OpenW job_id | JsonDump job_id dict

fun perform :: "file_op \<Rightarrow> world \<Rightarrow> world" where
  "perform (OpenW job_id) w = open_w job_id w"
| "perform (JsonDump job_id status_data) w = json_dump job_id status_data w"

definition write_json :: "job_id \<Rightarrow> dict \<Rightarrow> file_op list" where
  "write_json job_id status_data = [OpenW job_id, JsonDump job_id status_data]"

definition performed :: "file_op list \<Rightarrow> world \<Rightarrow> world" where
  "performed ops w = fold perform ops w"


text \<open>\<^verbatim>\<open>json.load\<close> of a status file: an empty file is not a JSON document.\<close>

definition json_load :: "file_content \<Rightarrow> exn + dict" where
  "json_load c = (case c of Truncated \<Rightarrow> Inl JSONDecodeError | Document d \<Rightarrow> Inr d)"

text \<open>\<^verbatim>\<open>api/main.py\<close>: \<^verbatim>\<open>save_job_status\<close> and the helper \<^verbatim>\<open>get_job_status\<close>
  (\<^verbatim>\<open>_get_job_status_helper\<close>), which returns \<^verbatim>\<open>None\<close> when there is no file.\<close>

definition save_job_status :: "job_id \<Rightarrow> dict \<Rightarrow> world \<Rightarrow> world" where
  "save_job_status job_id status_data w = performed (write_json job_id status_data) w"

definition get_job_status_helper :: "job_id \<Rightarrow> world \<Rightarrow> exn + dict option" where
  "get_job_status_helper job_id w =
     (case status_files w job_id of
        None \<Rightarrow> Inr None
      | Some c \<Rightarrow> (case json_load c of Inl e \<Rightarrow> Inl e | Inr d \<Rightarrow> Inr (Some d)))"

text \<open>
  Binding the arguments of a call
  \<^verbatim>\<open>update_job_status(job_id, status=..., progress=..., message=..., **kwargs)\<close>: a keyword
  that names a parameter already bound, or that is given twice, raises \<^verbatim>\<open>TypeError\<close> at
  the call, and the body does not run. \<open>multiple_values bound keys\<close> is the first such
  keyword. The message is the one of CPython 3.9 and later.
\<close>

fun multiple_values :: "string list \<Rightarrow> string list \<Rightarrow> string option" where
  "multiple_values bound [] = None"
| "multiple_values bound (k # ks) =
     (if k \<in> set bound then Some k else multiple_values (k # bound) ks)"

definition bind_kwargs :: "dict \<Rightarrow> string option" where
  "bind_kwargs kwargs =
     multiple_values [''job_id'', ''status'', ''progress'', ''message''] (map fst kwargs)"

definition TypeError_multiple_values :: "string \<Rightarrow> exn" where
  "TypeError_multiple_values k =
     Exn ''TypeError''
       ((if k = ''job_id'' then ''update_job_status() got multiple values for argument ''
         else ''worker.tasks.update_job_status() got multiple values for keyword argument '') @
        [CHR 0x27] @ k @ [CHR 0x27]) []"

text \<open>
  \<^verbatim>\<open>worker/tasks.py\<close>: \<^verbatim>\<open>update_job_status(job_id, status, progress, message, **kwargs)\<close>.
  The result is the exception raised, if any, and the world the call leaves.
\<close>

definition update_job_status ::
  "job_id \<Rightarrow> string \<Rightarrow> int \<Rightarrow> string \<Rightarrow> dict \<Rightarrow> world \<Rightarrow> exn option \<times> world" where
  "update_job_status job_id status progress message kwargs w =
     (case bind_kwargs kwargs of
        Some k \<Rightarrow> (Some (TypeError_multiple_values k), w)
      | None \<Rightarrow>
          (case (case status_files w job_id of
                   Some c \<Rightarrow> json_load c
                 | None \<Rightarrow> Inr []) of
             Inl e \<Rightarrow> (Some e, w)
           | Inr status_data \<Rightarrow>
               (let (updated_at, w1) = utcnow w;
                    status_data' = dict_update status_data
                      (dict_literal
                         ([(''status'', JStr status),
                           (''progress'', JInt progress),
                           (''message'', JStr message),
                           (''updated_at'', JTime updated_at)] @ kwargs))
                in (None, performed (write_json job_id status_data') w1))))"


section \<open>Pipeline stages\<close>

text \<open>
  The stage adapters and the mesh library are external collaborators. A call of one of
  them either returns or raises; its result is an input of the model.
\<close>

datatype outcome = Done | Raises exn

text \<open>
  \<^verbatim>\<open>mesh.export(path, file_type=...)\<close>: the file it writes, or the exception it raises
  together with what the failed call leaves at \<open>path\<close> (nothing, or a partial file).
\<close>

datatype export_outcome = Written bytes | ExportFailed exn "bytes option"

text \<open>
  \<^verbatim>\<open>mesh.export(gltf_path, file_type='gltf')\<close> writes several files into the directory of
  \<open>gltf_path\<close>: the buffers of the mesh, as \<^verbatim>\<open>gltf_buffer_0.bin\<close>, \<^verbatim>\<open>gltf_buffer_1.bin\<close>, ...,
  and then the JSON document at \<open>gltf_path\<close>. A call that raises may have written some
  of them.
\<close>

datatype gltf_outcome = GltfWritten bytes "bytes list" | GltfFailed exn "bytes option" "bytes list"

text \<open>
  What \<^verbatim>\<open>trimesh.load(glb_path)\<close> gives \<^verbatim>\<open>compute_qa_metrics\<close>. The bounds are the three
  lists \<^verbatim>\<open>bounds[0].tolist()\<close>, \<^verbatim>\<open>bounds[1].tolist()\<close> and \<^verbatim>\<open>size.tolist()\<close>, or the
  exception that computing them raises; the texture probe is the image size found by
  the two \<^verbatim>\<open>hasattr\<close> tests, or the exception raised on the way.
\<close>

datatype 'a attempt = Ok 'a | Fails exn

datatype geometry = GTrimesh nat nat | GOther

datatype loaded_mesh =
    LoadedTrimesh nat nat "(json \<times> json \<times> json) attempt" "(nat \<times> nat) option attempt"
  | LoadedScene "geometry list" "(json \<times> json \<times> json) attempt"
  | LoadedOther

record settings =
  MIN_IMAGES :: int
  MAX_IMAGES :: int
  MAX_UPLOAD_MB :: int
  ENABLE_SAM_SEGMENTATION :: bool

text \<open>
  One delivery of the task to a worker: \<open>retries\<close> is \<^verbatim>\<open>self.request.retries\<close>, the
  other fields are the results of the external calls the task makes.
  \<open>prepare_mesh\<close> is \<^verbatim>\<open>export_glb\<close> up to its final export: finding and loading the
  post-processed mesh and applying the options to it. \<open>dir_rank\<close> is the place of a file
  name in the listing of the images directory that \<^verbatim>\<open>glob.glob\<close> reads: the file system
  decides the order, which need not be the order of upload.
\<close>

record delivery =
  retries :: nat
  dir_rank :: "string \<Rightarrow> nat"
  run_sam_segmentation :: outcome
  pil_white_mask :: "string \<Rightarrow> outcome"
  run_openmvg :: outcome
  run_openmvs_pipeline :: outcome
  run_postprocessing :: outcome
  prepare_mesh :: outcome
  mesh_export_glb :: export_outcome
  mesh_export_gltf :: gltf_outcome
  trimesh_load :: "loaded_mesh attempt"

text \<open>\<^verbatim>\<open>traceback.format_exc()\<close> inside the handler of \<open>e\<close>.\<close>

definition format_exc :: "exn \<Rightarrow> string" where
  "format_exc e = ''Traceback (most recent call last):'' @ [CHR 0x0A] @ exn_frames e @
     exn_type e @ (if exn_str e = [] then [] else '': '' @ exn_str e) @ [CHR 0x0A]"

text \<open>\<^verbatim>\<open>s.replace(old, new)\<close> for a non-empty \<open>old\<close>: leftmost occurrences, not
  overlapping.\<close>

fun str_replace :: "string \<Rightarrow> string \<Rightarrow> string \<Rightarrow> string" where
  "str_replace old new [] = []"
| "str_replace old new (c # s) =
     (if old \<noteq> [] \<and> take (length old) (c # s) = old
      then new @ str_replace old new (drop (length old - 1) s)
      else c # str_replace old new s)"

text \<open>The artifact of a job, as a path below \<^verbatim>\<open>STORAGE_ROOT/artifacts/\<close>
  (\<^verbatim>\<open>STORAGE_ROOT\<close> itself is taken to contain no \<^verbatim>\<open>.glb\<close>).\<close>

definition artifact_path :: "job_id \<Rightarrow> string" where
  "artifact_path job_id = job_id @ ''.glb''"

text \<open>\<^verbatim>\<open>os.makedirs(os.path.join(job_dir, name), exist_ok=True)\<close>: creates the workspace
  directory as well when it is missing.\<close>

definition makedirs :: "job_id \<Rightarrow> string \<Rightarrow> world \<Rightarrow> world" where
  "makedirs job_id name w =
     (let ws = (case workspaces w job_id of
                  None \<Rightarrow> \<lparr>images = [], masks = [], subdirs = []\<rparr>
                | Some ws \<Rightarrow> ws)
      in w\<lparr>workspaces := (workspaces w)(job_id \<mapsto> ws\<lparr>subdirs := List.insert name (subdirs ws)\<rparr>)\<rparr>)"

definition make_stage_dirs :: "job_id \<Rightarrow> world \<Rightarrow> exn option \<times> world" where
  "make_stage_dirs job_id w =
     (None, makedirs job_id ''output'' (makedirs job_id ''mesh'' (makedirs job_id ''dense''
        (makedirs job_id ''sparse'' (makedirs job_id ''masks'' w)))))"

text \<open>\<^verbatim>\<open>glob.glob(os.path.join(images_dir, "*"))\<close>: the names in the images directory that
  do not start with a dot, in the order of the directory listing; and
  \<^verbatim>\<open>white_mask.save(mask_path)\<close>.\<close>

definition glob_images :: "delivery \<Rightarrow> job_id \<Rightarrow> world \<Rightarrow> string list" where
  "glob_images env job_id w =
     (case workspaces w job_id of
        None \<Rightarrow> []
      | Some ws \<Rightarrow>
          sort_key (dir_rank env) (filter (\<lambda>name. take 1 name \<noteq> ''.'') (map fst (images ws))))"

definition save_mask :: "job_id \<Rightarrow> string \<Rightarrow> world \<Rightarrow> world" where
  "save_mask job_id basename w =
     (case workspaces w job_id of
        None \<Rightarrow> w
      | Some ws \<Rightarrow>
          w\<lparr>workspaces := (workspaces w)(job_id \<mapsto> ws\<lparr>masks := List.insert basename (masks ws)\<rparr>)\<rparr>)"

text \<open>The loop of stage 1 when segmentation is disabled: a white mask for every image.\<close>

fun white_masks :: "(string \<Rightarrow> outcome) \<Rightarrow> job_id \<Rightarrow> string list \<Rightarrow> world \<Rightarrow> exn option \<times> world" where
  "white_masks pil job_id [] w = (None, w)"
| "white_masks pil job_id (img # imgs) w =
     (case pil img of
        Raises e \<Rightarrow> (Some e, w)
      | Done \<Rightarrow> white_masks pil job_id imgs (save_mask job_id img w))"

definition create_white_masks :: "delivery \<Rightarrow> job_id \<Rightarrow> world \<Rightarrow> exn option \<times> world" where
  "create_white_masks env job_id w =
     white_masks (pil_white_mask env) job_id (glob_images env job_id w) w"

text \<open>A call of a stage adapter: it touches neither the status files nor the artifacts.\<close>

definition adapter :: "outcome \<Rightarrow> world \<Rightarrow> exn option \<times> world" where
  "adapter r w = (case r of Done \<Rightarrow> (None, w) | Raises e \<Rightarrow> (Some e, w))"

text \<open>
  \<^verbatim>\<open>worker/pipeline/export.py\<close>: \<^verbatim>\<open>export_glb(mesh_dir, output_path, options)\<close>. When the
  GLB export raises an exception that \<^verbatim>\<open>except Exception\<close> catches, the mesh is exported
  as GLTF to \<^verbatim>\<open>output_path.replace('.glb', '.gltf')\<close> and the function returns; any other
  exception of the GLB export, and every exception of that second export, propagates.
  The files are named by their path below \<^verbatim>\<open>STORAGE_ROOT/artifacts/\<close>.
\<close>

definition leave_at :: "string \<Rightarrow> bytes option \<Rightarrow> world \<Rightarrow> world" where
  "leave_at path partial w =
     (case partial of None \<Rightarrow> w | Some b \<Rightarrow> w\<lparr>artifacts := (artifacts w)(path \<mapsto> b)\<rparr>)"

definition buffer_name :: "nat \<Rightarrow> string" where
  "buffer_name i = ''gltf_buffer_'' @ nat_str i @ ''.bin''"

definition write_buffers :: "bytes list \<Rightarrow> world \<Rightarrow> world" where
  "write_buffers buffers w =
     w\<lparr>artifacts := fold (\<lambda>(i, b) files. files(buffer_name i \<mapsto> b)) (enumerate 0 buffers) (artifacts w)\<rparr>"

definition export_glb :: "delivery \<Rightarrow> string \<Rightarrow> world \<Rightarrow> exn option \<times> world" where
  "export_glb env output_path w =
     (case prepare_mesh env of
        Raises e \<Rightarrow> (Some e, w)
      | Done \<Rightarrow>
          (case mesh_export_glb env of
             Written b \<Rightarrow> (None, w\<lparr>artifacts := (artifacts w)(output_path \<mapsto> b)\<rparr>)
           | ExportFailed e partial \<Rightarrow>
               (let w1 = leave_at output_path partial w
                in if \<not> is_Exception e then (Some e, w1)
                   else
                     (let gltf_path = str_replace ''.glb'' ''.gltf'' output_path
                      in case mesh_export_gltf env of
                           GltfWritten b buffers \<Rightarrow>
                             (let w2 = write_buffers buffers w1
                              in (None, w2\<lparr>artifacts := (artifacts w2)(gltf_path \<mapsto> b)\<rparr>))
                         | GltfFailed e' partial' buffers \<Rightarrow>
                             (Some e', leave_at gltf_path partial' (write_buffers buffers w1))))))"

text \<open>\<^verbatim>\<open>round(n / (1024 * 1024), 2)\<close> for a byte count \<open>n\<close>: the division by a power of two
  is exact, and \<^verbatim>\<open>round\<close> rounds an exact tie to the even neighbour. The result is given
  by its decimal value.\<close>

definition round_half_even :: "rat \<Rightarrow> int" where
  "round_half_even x =
     (let f = \<lfloor>x\<rfloor>; r = x - of_int f
      in if r < 1 / 2 then f else if 1 / 2 < r then f + 1 else if even f then f else f + 1)"

definition size_mb :: "nat \<Rightarrow> rat" where
  "size_mb n = of_int (round_half_even (of_nat n * 100 / (1024 * 1024))) / 100"

text \<open>\<^verbatim>\<open>compute_qa_metrics(glb_path, workspace_dir)\<close>. \<open>set_key\<close> is \<^verbatim>\<open>metrics[k] = v\<close>.
  \<open>analyze\<close> is the body of the \<^verbatim>\<open>try\<close> after the load: the exception it raises, if any,
  and the metrics set by then. The handler is \<^verbatim>\<open>except Exception\<close>: it catches such an
  exception and the metrics set so far are returned; any other exception propagates.\<close>

definition set_key :: "string \<Rightarrow> json \<Rightarrow> dict \<Rightarrow> dict" where
  "set_key k v d = AList.update k v d"

definition estimated_quality :: "nat \<Rightarrow> json" where
  "estimated_quality triangle_count =
     (if 50000 < triangle_count then JStr ''high''
      else if 10000 < triangle_count then JStr ''medium''
      else JStr ''low'')"

definition bounding_box :: "json \<times> json \<times> json \<Rightarrow> json" where
  "bounding_box b = (case b of (lo, hi, sz) \<Rightarrow> JObj [(''min'', lo), (''max'', hi), (''size'', sz)])"

definition texture_size :: "nat \<times> nat \<Rightarrow> json" where
  "texture_size t = (case t of (width, height) \<Rightarrow> JObj [(''width'', JInt (int width)), (''height'', JInt (int height))])"

fun scene_faces :: "geometry list \<Rightarrow> nat" where
  "scene_faces [] = 0"
| "scene_faces (GTrimesh faces vertices # gs) = faces + scene_faces gs"
| "scene_faces (GOther # gs) = scene_faces gs"

fun scene_vertices :: "geometry list \<Rightarrow> nat" where
  "scene_vertices [] = 0"
| "scene_vertices (GTrimesh faces vertices # gs) = vertices + scene_vertices gs"
| "scene_vertices (GOther # gs) = scene_vertices gs"

definition analyze :: "loaded_mesh \<Rightarrow> dict \<Rightarrow> exn option \<times> dict" where
  "analyze mesh metrics =
     (case mesh of
        LoadedTrimesh faces vertices bounds texture \<Rightarrow>
          (let m1 = set_key ''vertex_count'' (JInt (int vertices))
                      (set_key ''triangle_count'' (JInt (int faces)) metrics)
           in case bounds of
                Fails e \<Rightarrow> (Some e, m1)
              | Ok b \<Rightarrow>
                  (let m2 = set_key ''bounding_box'' (bounding_box b) m1
                   in case texture of
                        Fails e \<Rightarrow> (Some e, m2)
                      | Ok None \<Rightarrow> (None, set_key ''estimated_quality'' (estimated_quality faces) m2)
                      | Ok (Some t) \<Rightarrow>
                          (None, set_key ''estimated_quality'' (estimated_quality faces)
                                   (set_key ''texture_size'' (texture_size t) m2))))
      | LoadedScene geometries bounds \<Rightarrow>
          (let total_faces = scene_faces geometries;
               total_vertices = scene_vertices geometries;
               m1 = set_key ''vertex_count'' (JInt (int total_vertices))
                      (set_key ''triangle_count'' (JInt (int total_faces)) metrics)
           in case bounds of
                Fails e \<Rightarrow> (Some e, m1)
              | Ok b \<Rightarrow>
                  (None, set_key ''estimated_quality'' (estimated_quality total_faces)
                           (set_key ''bounding_box'' (bounding_box b) m1)))
      | LoadedOther \<Rightarrow> (None, metrics))"

definition default_metrics :: dict where
  "default_metrics =
     [(''file_size_mb'', JInt 0),
      (''triangle_count'', JInt 0),
      (''vertex_count'', JInt 0),
      (''texture_size'', JNull),
      (''bounding_box'', JNull),
      (''estimated_quality'', JStr ''medium'')]"

definition compute_qa_metrics :: "delivery \<Rightarrow> string \<Rightarrow> world \<Rightarrow> exn + dict" where
  "compute_qa_metrics env glb_path w =
     (case artifacts w glb_path of
        None \<Rightarrow> Inr default_metrics
      | Some b \<Rightarrow>
          (let metrics = set_key ''file_size_mb'' (JFloat (size_mb (length b))) default_metrics
           in case (case trimesh_load env of
                      Fails e \<Rightarrow> (Some e, metrics)
                    | Ok mesh \<Rightarrow> analyze mesh metrics) of
                (None, metrics') \<Rightarrow> Inr metrics'
              | (Some e, metrics') \<Rightarrow> if is_Exception e then Inr metrics' else Inl e))"

section \<open>Pipeline executor\<close>

text \<open>Statements of a \<^verbatim>\<open>try\<close> body in sequence: the first exception ends the body.\<close>

fun run_steps :: "(world \<Rightarrow> exn option \<times> world) list \<Rightarrow> world \<Rightarrow> exn option \<times> world" where
  "run_steps [] w = (None, w)"
| "run_steps (s # ss) w =
     (case s w of
        (Some e, w') \<Rightarrow> (Some e, w')
      | (None, w') \<Rightarrow> run_steps ss w')"

text \<open>\<^verbatim>\<open>worker/tasks.py\<close>, \<^verbatim>\<open>run_reconstruction\<close>: the statements of the \<^verbatim>\<open>try\<close> body up to
  the export (the imports of the pipeline modules are taken to succeed).\<close>

definition stage_steps :: "settings \<Rightarrow> delivery \<Rightarrow> job_id \<Rightarrow> (world \<Rightarrow> exn option \<times> world) list" where
  "stage_steps cfg env job_id =
     [update_job_status job_id ''processing'' 0 ''Pipeline started'' [],
      make_stage_dirs job_id] @
     (if ENABLE_SAM_SEGMENTATION cfg
      then [update_job_status job_id ''processing'' 10 ''Running SAM segmentation...'' [],
            adapter (run_sam_segmentation env)]
      else [create_white_masks env job_id]) @
     [update_job_status job_id ''processing'' 20 ''Running sparse reconstruction (OpenMVG)...'' [],
      adapter (run_openmvg env),
      update_job_status job_id ''processing'' 50 ''Running dense reconstruction (OpenMVS)...'' [],
      adapter (run_openmvs_pipeline env),
      update_job_status job_id ''processing'' 70 ''Post-processing mesh...'' [],
      adapter (run_postprocessing env),
      update_job_status job_id ''processing'' 90 ''Exporting to GLB format...'' [],
      export_glb env (artifact_path job_id)]"

text \<open>The body of the \<^verbatim>\<open>except Exception as exc\<close> handler: the status write, then
  \<^verbatim>\<open>raise exc\<close>. An exception of the status write itself replaces \<open>exc\<close>.\<close>

definition on_exception :: "delivery \<Rightarrow> job_id \<Rightarrow> exn \<Rightarrow> world \<Rightarrow> (exn + dict) \<times> world" where
  "on_exception env job_id exc w =
     (let error_msg = exn_str exc;
          error_trace = format_exc exc
      in case update_job_status job_id ''failed'' (int (retries env) * 10)
                (''Error: '' @ error_msg)
                [(''error'', JStr error_msg), (''traceback'', JStr error_trace)] w of
           (None, w') \<Rightarrow> (Inl exc, w')
         | (Some e, w') \<Rightarrow> (Inl e, w'))"

text \<open>An exception that leaves the \<^verbatim>\<open>try\<close> body of the task: the handler runs when
  \<^verbatim>\<open>except Exception\<close> catches it, and otherwise the exception leaves the task as it
  is, with no status write.\<close>

definition except_Exception :: "delivery \<Rightarrow> job_id \<Rightarrow> exn \<Rightarrow> world \<Rightarrow> (exn + dict) \<times> world" where
  "except_Exception env job_id exc w =
     (if is_Exception exc then on_exception env job_id exc w else (Inl exc, w))"

definition run_reconstruction ::
  "settings \<Rightarrow> delivery \<Rightarrow> job_id \<Rightarrow> json \<Rightarrow> world \<Rightarrow> (exn + dict) \<times> world" where
  "run_reconstruction cfg env job_id options w =
     (case run_steps (stage_steps cfg env job_id) w of
        (Some exc, w1) \<Rightarrow> except_Exception env job_id exc w1
      | (None, w1) \<Rightarrow>
          (case compute_qa_metrics env (artifact_path job_id) w1 of
             Inl exc \<Rightarrow> except_Exception env job_id exc w1
           | Inr metrics \<Rightarrow>
               (let (completed_at, w2) = utcnow w1
                in case update_job_status job_id ''completed'' 100 ''Reconstruction complete''
                          [(''completed_at'', JTime completed_at), (''metrics'', JObj metrics)] w2 of
                     (Some exc, w3) \<Rightarrow> except_Exception env job_id exc w3
                   | (None, w3) \<Rightarrow>
                       (Inr [(''job_id'', JStr job_id),
                             (''status'', JStr ''completed''),
                             (''progress'', JInt 100),
                             (''metrics'', JObj metrics)], w3))))"


section \<open>HTTP API\<close>

text \<open>
  Library functions of the API, taken as parameters: \<^verbatim>\<open>json.loads\<close> (\<open>None\<close> when it raises
  \<^verbatim>\<open>JSONDecodeError\<close>), whether \<^verbatim>\<open>uuid.UUID(s)\<close> accepts a string, the extension
  \<^verbatim>\<open>os.path.splitext(p)[1]\<close>, and \<^verbatim>\<open>str.lower\<close>.
\<close>

record stdlib =
  json_loads :: "string \<Rightarrow> json option"
  uuid_ok :: "string \<Rightarrow> bool"
  splitext_ext :: "string \<Rightarrow> string"
  str_lower :: "string \<Rightarrow> string"

text \<open>
  The detail of an \<^verbatim>\<open>HTTPException\<close> is an f-string: literal text and interpolated values.
  An exception that no handler catches reaches the client as a 500 response.
\<close>

datatype part = Lit string | Val json

datatype http_error = HTTPException nat "part list" | Unhandled exn

record upload =
  filename :: "string option"
  file_data :: bytes

record file_response =
  path :: string
  media_type :: string
  download_name :: string

text \<open>\<^verbatim>\<open>open(path, "wb")\<close> with \<^verbatim>\<open>shutil.copyfileobj\<close> into the images directory, and
  \<^verbatim>\<open>shutil.rmtree(job_dir)\<close>.\<close>

definition write_image :: "job_id \<Rightarrow> string \<Rightarrow> bytes \<Rightarrow> world \<Rightarrow> world" where
  "write_image job_id name b w =
     (case workspaces w job_id of
        None \<Rightarrow> w
      | Some ws \<Rightarrow>
          w\<lparr>workspaces := (workspaces w)(job_id \<mapsto> ws\<lparr>images := AList.update name b (images ws)\<rparr>)\<rparr>)"

definition rmtree :: "job_id \<Rightarrow> world \<Rightarrow> world" where
  "rmtree job_id w = w\<lparr>workspaces := (workspaces w)(job_id := None)\<rparr>"

text \<open>
  The upload loop of \<^verbatim>\<open>create_job\<close>, from image \<open>i\<close> on with \<open>total_size\<close> bytes saved so
  far. It returns the total size, or the 413 error after the workspace is removed. (The
  list \<^verbatim>\<open>saved_paths\<close> is built and never read; it is left out.)
\<close>

fun save_uploads ::
  "settings \<Rightarrow> stdlib \<Rightarrow> job_id \<Rightarrow> nat \<Rightarrow> upload list \<Rightarrow> nat \<Rightarrow> world \<Rightarrow> (http_error + nat) \<times> world" where
  "save_uploads cfg lib job_id i [] total_size w = (Inr total_size, w)"
| "save_uploads cfg lib job_id i (upload_file # rest) total_size w =
     (let original_filename =
            (case filename upload_file of
               None \<Rightarrow> nat_str i @ ''.jpg''
             | Some f \<Rightarrow> if f = [] then nat_str i @ ''.jpg'' else f);
          e = str_lower lib (splitext_ext lib original_filename);
          ext = (if e = [] then ''.jpg'' else e);
          w1 = write_image job_id (pad4 i @ ext) (file_data upload_file) w;
          file_size = length (file_data upload_file);
          total_size' = total_size + file_size
      in if MAX_UPLOAD_MB cfg * 1024 * 1024 < int total_size'
         then (Inl (HTTPException 413
                  [Lit ''Total upload size exceeds '', Val (JInt (MAX_UPLOAD_MB cfg)), Lit ''MB limit'']),
               rmtree job_id w1)
         else save_uploads cfg lib job_id (Suc i) rest total_size' w1)"

text \<open>\<^verbatim>\<open>run_reconstruction.delay(job_id, opts)\<close>: the task goes on the broker queue.\<close>

definition delay :: "job_id \<Rightarrow> json \<Rightarrow> world \<Rightarrow> world" where
  "delay job_id opts w = w\<lparr>queue := queue w @ [(job_id, opts)]\<rparr>"

text \<open>
  \<^verbatim>\<open>POST /api/v1/jobs\<close>: \<^verbatim>\<open>create_job(images, options)\<close> for an authenticated request.
  \<open>new_uuid\<close> is the value of \<^verbatim>\<open>str(uuid.uuid4())\<close> in this call and \<open>task_id\<close> the id of
  the queued task.
\<close>

definition create_job ::
  "settings \<Rightarrow> stdlib \<Rightarrow> job_id \<Rightarrow> string \<Rightarrow> upload list \<Rightarrow> string \<Rightarrow> world \<Rightarrow> (http_error + dict) \<times> world" where
  "create_job cfg lib new_uuid task_id images_in options w =
     (case json_loads lib (if options = [] then ''{}'' else options) of
        None \<Rightarrow> (Inl (HTTPException 400 [Lit ''Invalid JSON in options parameter'']), w)
      | Some opts \<Rightarrow>
          (let n = int (length images_in) in
           if n < MIN_IMAGES cfg
           then (Inl (HTTPException 400
                    [Lit ''Need at least '', Val (JInt (MIN_IMAGES cfg)), Lit '' images for reconstruction'']), w)
           else if MAX_IMAGES cfg < n
           then (Inl (HTTPException 400
                    [Lit ''Maximum '', Val (JInt (MAX_IMAGES cfg)), Lit '' images allowed'']), w)
           else
             (let job_id = new_uuid;
                  w1 = makedirs job_id ''images'' w
              in case save_uploads cfg lib job_id 0 images_in 0 w1 of
                   (Inl err, w2) \<Rightarrow> (Inl err, w2)
                 | (Inr total_size, w2) \<Rightarrow>
                     (let (created_at, w3) = utcnow w2;
                          status_data = dict_literal
                            [(''job_id'', JStr job_id),
                             (''status'', JStr ''queued''),
                             (''created_at'', JTime created_at),
                             (''num_images'', JInt n),
                             (''total_size_mb'', JFloat (size_mb total_size)),
                             (''options'', opts),
                             (''progress'', JInt 0),
                             (''message'', JStr ''Job queued for processing'')];
                          w4 = save_job_status job_id status_data w3;
                          w5 = delay job_id opts w4
                      in (Inr [(''job_id'', JStr job_id),
                               (''task_id'', JStr task_id),
                               (''status'', JStr ''queued''),
                               (''message'', JStr ''Job created successfully'')], w5)))))"

text \<open>\<^verbatim>\<open>GET /api/v1/jobs/{job_id}\<close>: the endpoint \<^verbatim>\<open>get_job_status\<close>. An empty dict is falsy
  in Python, so it is reported as a missing job.\<close>

definition get_job_status :: "stdlib \<Rightarrow> job_id \<Rightarrow> world \<Rightarrow> http_error + dict" where
  "get_job_status lib job_id w =
     (if \<not> uuid_ok lib job_id then Inl (HTTPException 400 [Lit ''Invalid job ID format''])
      else case get_job_status_helper job_id w of
             Inl e \<Rightarrow> Inl (Unhandled e)
           | Inr None \<Rightarrow> Inl (HTTPException 404 [Lit ''Job not found''])
           | Inr (Some status_data) \<Rightarrow>
               if status_data = [] then Inl (HTTPException 404 [Lit ''Job not found''])
               else Inr status_data)"

text \<open>\<^verbatim>\<open>GET /api/v1/jobs/{job_id}/artifact\<close>: the endpoint \<^verbatim>\<open>get_artifact\<close>.\<close>

definition get_artifact :: "stdlib \<Rightarrow> job_id \<Rightarrow> world \<Rightarrow> http_error + file_response" where
  "get_artifact lib job_id w =
     (if \<not> uuid_ok lib job_id then Inl (HTTPException 400 [Lit ''Invalid job ID format''])
      else case get_job_status_helper job_id w of
             Inl e \<Rightarrow> Inl (Unhandled e)
           | Inr None \<Rightarrow> Inl (HTTPException 404 [Lit ''Job not found''])
           | Inr (Some status_data) \<Rightarrow>
               if status_data = [] then Inl (HTTPException 404 [Lit ''Job not found''])
               else if dict_get status_data ''status'' \<noteq> Some (JStr ''completed'')
               then (let current_status =
                           (case dict_get status_data ''status'' of
                              None \<Rightarrow> JStr ''unknown''
                            | Some v \<Rightarrow> v)
                     in Inl (HTTPException 409
                          [Lit ''Job not completed yet. Current status: '', Val current_status]))
               else if artifacts w (artifact_path job_id) = None
               then Inl (HTTPException 404 [Lit ''Artifact file not found''])
               else Inr \<lparr>path = artifact_path job_id,
                         media_type = ''model/gltf-binary'',
                         download_name = ''atlas-'' @ job_id @ ''.glb''\<rparr>)"

text \<open>\<^verbatim>\<open>DELETE /api/v1/jobs/{job_id}\<close>: the endpoint \<^verbatim>\<open>delete_job\<close>. Each removal is
  guarded by \<^verbatim>\<open>os.path.exists\<close>.\<close>

definition delete_job :: "stdlib \<Rightarrow> job_id \<Rightarrow> world \<Rightarrow> (http_error + dict) \<times> world" where
  "delete_job lib job_id w =
     (if \<not> uuid_ok lib job_id then (Inl (HTTPException 400 [Lit ''Invalid job ID format'']), w)
      else
        (let w1 = (if workspaces w job_id \<noteq> None then rmtree job_id w else w);
             w2 = (if artifacts w1 (artifact_path job_id) \<noteq> None
                   then w1\<lparr>artifacts := (artifacts w1)(artifact_path job_id := None)\<rparr> else w1);
             w3 = (if status_files w2 job_id \<noteq> None
                   then w2\<lparr>status_files := (status_files w2)(job_id := None)\<rparr> else w2)
         in (Inr [(''message'', JStr (''Job '' @ job_id @ '' deleted successfully''))], w3)))"

section \<open>Vocabulary of the proofs\<close>

text \<open>
  The record a status file holds, as the worker reads it (\<open>[]\<close> when there is no file).
  A step is \<open>quiet\<close> when it touches neither the status files, the log nor the clock;
  \<open>conforms\<close> tags a step of the pipeline as quiet or as the status write of a progress
  value. The keys every status write sets are the \<open>reserved\<close> ones.
\<close>

definition stored :: "world \<Rightarrow> job_id \<Rightarrow> dict" where
  "stored w job_id = (case status_files w job_id of Some (Document d) \<Rightarrow> d | _ \<Rightarrow> [])"

definition quiet :: "(world \<Rightarrow> exn option \<times> world) \<Rightarrow> bool" where
  "quiet s = (\<forall>w. status_files (snd (s w)) = status_files w \<and>
                  status_log (snd (s w)) = status_log w \<and>
                  now (snd (s w)) = now w)"

definition conforms :: "job_id \<Rightarrow> int option \<Rightarrow> (world \<Rightarrow> exn option \<times> world) \<Rightarrow> bool" where
  "conforms job_id tag s =
     (case tag of
        None \<Rightarrow> quiet s
      | Some p \<Rightarrow> (\<exists>m. s = update_job_status job_id ''processing'' p m []))"

definition reserved_key :: "string \<Rightarrow> bool" where
  "reserved_key k = (k = ''status'' \<or> k = ''progress'' \<or> k = ''message'' \<or> k = ''updated_at'')"

text \<open>The exception that \<^verbatim>\<open>trimesh.load\<close>, or the analysis of the mesh it has loaded,
  raises inside \<^verbatim>\<open>compute_qa_metrics\<close>, if any.\<close>

definition metrics_exception :: "loaded_mesh attempt \<Rightarrow> exn option" where
  "metrics_exception L = (case L of Fails e \<Rightarrow> Some e | Ok mesh \<Rightarrow> fst (analyze mesh []))"

section \<open>Example inputs\<close>

definition job0 :: job_id where
  "job0 = ''123e4567-e89b-42d3-a456-426614174000''"

definition lib0 :: stdlib where
  "lib0 = \<lparr>json_loads = (\<lambda>s. if s = ''{}'' then Some (JObj []) else None),
           uuid_ok = (\<lambda>s. length s = 36),
           splitext_ext = (\<lambda>s. ''.jpg''),
           str_lower = (\<lambda>s. s)\<rparr>"

definition world0 :: world where
  "world0 = \<lparr>workspaces = Map.empty, artifacts = Map.empty, status_files = Map.empty,
              queue = [], now = 1000, elapse = (\<lambda>k. 1), ticks = 0, status_log = []\<rparr>"

definition record_processing :: dict where
  "record_processing =
     [(''job_id'', JStr job0), (''status'', JStr ''processing''), (''created_at'', JTime 900),
      (''progress'', JInt 50), (''message'', JStr ''Running dense reconstruction (OpenMVS)...'')]"

definition world_processing :: world where
  "world_processing = world0\<lparr>status_files := [job0 \<mapsto> Document record_processing]\<rparr>"

definition cfg0 :: settings where
  "cfg0 = \<lparr>MIN_IMAGES = 3, MAX_IMAGES = 5, MAX_UPLOAD_MB = 1, ENABLE_SAM_SEGMENTATION = False\<rparr>"

definition delivery_ok :: delivery where
  "delivery_ok =
     \<lparr>retries = 0, dir_rank = (\<lambda>name. 0), run_sam_segmentation = Done,
      pil_white_mask = (\<lambda>img. Done),
      run_openmvg = Done, run_openmvs_pipeline = Done, run_postprocessing = Done,
      prepare_mesh = Done, mesh_export_glb = Written ''glTF'',
      mesh_export_gltf = GltfWritten ''{}'' [''bin''],
      trimesh_load = Ok (LoadedTrimesh 12 8 (Ok (JList [], JList [], JList [])) (Ok None))\<rparr>"

definition delivery_dense_fails :: delivery where
  "delivery_dense_fails =
     delivery_ok\<lparr>run_openmvs_pipeline :=
       Raises (Exn ''RuntimeError'' ''No sfm_data found in sparse'' [])\<rparr>"

definition delivery_assert_fails :: delivery where
  "delivery_assert_fails = delivery_ok\<lparr>prepare_mesh := Raises (Exn ''AssertionError'' [] [])\<rparr>"

definition record_completed :: dict where
  "record_completed =
     [(''job_id'', JStr job0), (''status'', JStr ''completed''), (''created_at'', JTime 900),
      (''progress'', JInt 100), (''message'', JStr ''Reconstruction complete''),
      (''updated_at'', JTime 950), (''completed_at'', JTime 950),
      (''metrics'', JObj default_metrics)]"

definition world_completed :: world where
  "world_completed = world0\<lparr>artifacts := [artifact_path job0 \<mapsto> ''glTF''],
                            status_files := [job0 \<mapsto> Document record_completed]\<rparr>"

definition delivery_glb_fails :: delivery where
  "delivery_glb_fails =
     delivery_ok\<lparr>mesh_export_glb := ExportFailed (Exn ''ValueError'' ''cannot export'' []) None\<rparr>"

definition KeyboardInterrupt :: exn where
  "KeyboardInterrupt = BaseExn ''KeyboardInterrupt'' [] []"

definition delivery_dense_interrupted :: delivery where
  "delivery_dense_interrupted = delivery_ok\<lparr>run_openmvs_pipeline := Raises KeyboardInterrupt\<rparr>"


definition delivery_glb_partial :: delivery where
  "delivery_glb_partial =
     delivery_ok\<lparr>mesh_export_glb := ExportFailed (Exn ''ValueError'' ''cannot export'' []) (Some [])\<rparr>"

text \<open>The bytes of a submission, and the error of the upload loop.\<close>

definition total_bytes :: "upload list \<Rightarrow> nat" where
  "total_bytes ups = sum_list (map (\<lambda>u. length (file_data u)) ups)"

definition too_large :: "settings \<Rightarrow> http_error" where
  "too_large cfg = HTTPException 413
     [Lit ''Total upload size exceeds '', Val (JInt (MAX_UPLOAD_MB cfg)), Lit ''MB limit'']"


definition uploads0 :: "upload list" where
  "uploads0 = [\<lparr>filename = Some ''a.JPG'', file_data = ''abc''\<rparr>,
               \<lparr>filename = None, file_data = ''de''\<rparr>,
               \<lparr>filename = Some [], file_data = ''f''\<rparr>]"

definition cfg_tiny :: settings where
  "cfg_tiny = \<lparr>MIN_IMAGES = 3, MAX_IMAGES = 5, MAX_UPLOAD_MB = 0, ENABLE_SAM_SEGMENTATION = False\<rparr>"

section \<open>Lemmas: dicts and the status store\<close>

lemma map_of_dict_update: "map_of (dict_update d u) = map_of d ++ map_of (rev u)"
  unfolding dict_update_def
proof (induction u arbitrary: d)
  case Nil
  show ?case by simp
next
  case (Cons kv u)
  obtain k v where kv: "kv = (k, v)" by (cases kv)
  have "(map_of d)(k \<mapsto> v) = map_of d ++ [k \<mapsto> v]" by simp
  then show ?case
    by (simp add: kv Cons.IH update_conv' del: map_add_upd)
qed

lemma distinct_dict_update:
  "distinct (map fst d) \<Longrightarrow> distinct (map fst (dict_update d u))"
  unfolding dict_update_def
  by (induction u arbitrary: d) (auto simp: AList.distinct_update)

lemma map_of_rev_distinct: "distinct (map fst xs) \<Longrightarrow> map_of (rev xs) = map_of xs"
  by (subst map_of_inject_set) (simp_all add: rev_map [symmetric])

lemma map_of_dict_literal: "map_of (dict_literal u) = map_of (rev u)"
  by (simp add: dict_literal_def map_of_dict_update)

lemma distinct_dict_literal: "distinct (map fst (dict_literal u))"
  by (simp add: dict_literal_def distinct_dict_update)

lemma dict_get_merge:
  "dict_get (dict_update d (dict_literal u)) k =
     (case map_of (rev u) k of Some v \<Rightarrow> Some v | None \<Rightarrow> dict_get d k)"
  by (simp add: dict_get_def map_of_dict_update map_of_rev_distinct distinct_dict_literal
      map_of_dict_literal map_add_def split: option.splits)



lemma performed_write_json [simp]:
  "performed (write_json j d) w = json_dump j d (open_w j w)"
  by (simp add: performed_def write_json_def)

lemma bind_kwargs_simps [simp]:
  "bind_kwargs [] = None"
  "bind_kwargs [(''completed_at'', a), (''metrics'', b)] = None"
  "bind_kwargs [(''error'', a), (''traceback'', b)] = None"
  by (simp_all add: bind_kwargs_def)

lemma update_job_status_ok:
  assumes "status_files w j \<noteq> Some Truncated" and "bind_kwargs kw = None"
  shows "\<exists>d'. update_job_status j s p m kw w =
           (None, w\<lparr>now := now w + elapse w (ticks w), ticks := Suc (ticks w),
                    status_files := (status_files w)(j \<mapsto> Document d'),
                    status_log := status_log w @ [(j, d')]\<rparr>)
         \<and> d' = dict_update (case status_files w j of Some (Document d) \<Rightarrow> d | _ \<Rightarrow> [])
                 (dict_literal ([(''status'', JStr s), (''progress'', JInt p), (''message'', JStr m),
                    (''updated_at'', JTime (now w + elapse w (ticks w)))] @ kw))"
  using assms
  by (auto simp: update_job_status_def json_load_def utcnow_def json_dump_def open_w_def Let_def
      split: option.splits file_content.splits)

lemma update_job_status_truncated:
  "status_files w j = Some Truncated \<Longrightarrow> bind_kwargs kw = None \<Longrightarrow>
   update_job_status j s p m kw w = (Some JSONDecodeError, w)"
  by (simp add: update_job_status_def json_load_def)

section \<open>Lemmas: the steps of the pipeline\<close>

lemma run_steps_append:
  "run_steps (xs @ ys) w =
     (case run_steps xs w of (Some e, w') \<Rightarrow> (Some e, w') | (None, w') \<Rightarrow> run_steps ys w')"
  by (induction xs arbitrary: w) (auto split: prod.splits option.splits)

lemma run_steps_invariant:
  assumes "\<And>s w. s \<in> set ss \<Longrightarrow> P w \<Longrightarrow> P (snd (s w))" and "P w"
  shows "P (snd (run_steps ss w))"
  using assms
proof (induction ss arbitrary: w)
  case Nil
  then show ?case by simp
next
  case (Cons s ss)
  have step: "P (snd (s w))" using Cons.prems by simp
  show ?case
  proof (cases "s w")
    case (Pair r w1)
    with step have "P w1" by simp
    show ?thesis
    proof (cases r)
      case None
      have "P (snd (run_steps ss w1))"
        using Cons.IH [of w1] Cons.prems(1) \<open>P w1\<close> by simp
      with Pair None show ?thesis by simp
    next
      case (Some e)
      with Pair \<open>P w1\<close> show ?thesis by simp
    qed
  qed
qed

lemma quiet_adapter: "quiet (adapter r)"
  by (simp add: quiet_def adapter_def split: outcome.splits)

lemma makedirs_frame:
  "status_files (makedirs j n w) = status_files w"
  "status_log (makedirs j n w) = status_log w"
  "now (makedirs j n w) = now w"
  "artifacts (makedirs j n w) = artifacts w"
  by (simp_all add: makedirs_def Let_def)

lemma quiet_make_stage_dirs: "quiet (make_stage_dirs j)"
  by (simp add: quiet_def make_stage_dirs_def makedirs_frame)

lemma save_mask_frame:
  "status_files (save_mask j n w) = status_files w"
  "status_log (save_mask j n w) = status_log w"
  "now (save_mask j n w) = now w"
  "artifacts (save_mask j n w) = artifacts w"
  by (simp_all add: save_mask_def split: option.splits)

lemma white_masks_frame:
  "status_files (snd (white_masks pil j imgs w)) = status_files w \<and>
   status_log (snd (white_masks pil j imgs w)) = status_log w \<and>
   now (snd (white_masks pil j imgs w)) = now w \<and>
   artifacts (snd (white_masks pil j imgs w)) = artifacts w"
  by (induction imgs arbitrary: w) (auto simp: save_mask_frame split: outcome.splits)

lemma quiet_create_white_masks: "quiet (create_white_masks env j)"
  by (simp add: quiet_def create_white_masks_def white_masks_frame)

lemma leave_at_frame:
  "status_files (leave_at p b w) = status_files w"
  "status_log (leave_at p b w) = status_log w"
  "now (leave_at p b w) = now w"
  by (simp_all add: leave_at_def split: option.splits)

lemma write_buffers_frame:
  "status_files (write_buffers bs w) = status_files w"
  "status_log (write_buffers bs w) = status_log w"
  "now (write_buffers bs w) = now w"
  "workspaces (write_buffers bs w) = workspaces w"
  by (simp_all add: write_buffers_def)

lemma quiet_export_glb: "quiet (export_glb env p)"
  by (simp add: quiet_def export_glb_def leave_at_frame write_buffers_frame Let_def
      split: outcome.splits export_outcome.splits gltf_outcome.splits)

lemma update_job_status_readable:
  "status_files (snd (update_job_status j s p m kw w)) j \<noteq> Some Truncated
     \<longleftrightarrow> status_files w j \<noteq> Some Truncated"
  by (auto simp: update_job_status_def json_load_def utcnow_def json_dump_def open_w_def Let_def
      split: option.splits file_content.splits)

lemma update_job_status_effect:
  assumes "status_files w j \<noteq> Some Truncated" and "bind_kwargs kw = None"
  obtains d' w1 where
    "update_job_status j s p m kw w = (None, w1)"
    "status_files w1 = (status_files w)(j \<mapsto> Document d')"
    "status_log w1 = status_log w @ [(j, d')]"
    "now w1 = now w + elapse w (ticks w)"
    "artifacts w1 = artifacts w"
    "workspaces w1 = workspaces w"
    "queue w1 = queue w"
    "\<And>k. dict_get d' k =
       (case map_of (rev ([(''status'', JStr s), (''progress'', JInt p), (''message'', JStr m),
              (''updated_at'', JTime (now w1))] @ kw)) k of
          Some v \<Rightarrow> Some v
        | None \<Rightarrow> dict_get (stored w j) k)"
proof -
  from update_job_status_ok [OF assms, of s p m]
  obtain d' where
    run: "update_job_status j s p m kw w =
           (None, w\<lparr>now := now w + elapse w (ticks w), ticks := Suc (ticks w),
                    status_files := (status_files w)(j \<mapsto> Document d'),
                    status_log := status_log w @ [(j, d')]\<rparr>)"
    and d': "d' = dict_update (case status_files w j of Some (Document d) \<Rightarrow> d | _ \<Rightarrow> [])
                 (dict_literal ([(''status'', JStr s), (''progress'', JInt p), (''message'', JStr m),
                    (''updated_at'', JTime (now w + elapse w (ticks w)))] @ kw))"
    by blast
  show thesis
  proof (rule that [OF run])
    fix k
    show "dict_get d' k =
       (case map_of (rev ([(''status'', JStr s), (''progress'', JInt p), (''message'', JStr m),
              (''updated_at'', JTime (now (w\<lparr>now := now w + elapse w (ticks w), ticks := Suc (ticks w),
                    status_files := (status_files w)(j \<mapsto> Document d'),
                    status_log := status_log w @ [(j, d')]\<rparr>)))] @ kw)) k of
          Some v \<Rightarrow> Some v
        | None \<Rightarrow> dict_get (stored w j) k)"
      unfolding d' dict_get_merge stored_def by simp
  qed simp_all
qed

lemma run_steps_trail:
  assumes "list_all2 (conforms j) tags steps"
    and "status_files w j \<noteq> Some Truncated"
    and "run_steps steps w = (None, w')"
  shows "status_files w' j \<noteq> Some Truncated \<and> now w \<le> now w' \<and>
     (\<forall>k. \<not> reserved_key k \<longrightarrow> dict_get (stored w' j) k = dict_get (stored w j) k) \<and>
     (\<exists>trail. status_log w' = status_log w @ trail \<and>
        map (\<lambda>e. (fst e, dict_get (snd e) ''status'', dict_get (snd e) ''progress'')) trail =
        map (\<lambda>p. (j, Some (JStr ''processing''), Some (JInt p))) (List.map_filter id tags))"
  using assms
proof (induction tags steps arbitrary: w rule: list_all2_induct)
  case Nil
  then show ?case by simp
next
  case (Cons tag tags s steps)
  obtain r w1 where sw: "s w = (r, w1)" by (cases "s w")
  with Cons.prems(2) have r: "r = None" and rest: "run_steps steps w1 = (None, w')"
    by (auto split: option.splits)
  show ?case
  proof (cases tag)
    case None
    with Cons.hyps(1) have "quiet s" by (simp add: conforms_def)
    with sw have same: "status_files w1 = status_files w" "status_log w1 = status_log w" "now w1 = now w"
      by (auto simp: quiet_def dest: spec [of _ w])
    from same Cons.prems(1) have "status_files w1 j \<noteq> Some Truncated" by simp
    from Cons.IH [OF this rest] same None show ?thesis
      by (simp add: stored_def map_filter_simps)
  next
    case (Some p)
    with Cons.hyps(1) obtain m where s: "s = update_job_status j ''processing'' p m []"
      by (auto simp: conforms_def)
    from update_job_status_effect [where s = "''processing''" and p = p and m = m and kw = "[]",
        OF Cons.prems(1) bind_kwargs_simps(1)]
    obtain d' w1' where
      run: "update_job_status j ''processing'' p m [] w = (None, w1')"
      and sf: "status_files w1' = (status_files w)(j \<mapsto> Document d')"
      and sl: "status_log w1' = status_log w @ [(j, d')]"
      and nw: "now w1' = now w + elapse w (ticks w)"
      and get: "\<And>k. dict_get d' k =
       (case map_of (rev ([(''status'', JStr ''processing''), (''progress'', JInt p), (''message'', JStr m),
              (''updated_at'', JTime (now w1'))] @ [])) k of
          Some v \<Rightarrow> Some v
        | None \<Rightarrow> dict_get (stored w j) k)"
      by blast
    from run sw s have w1: "w1' = w1" by simp
    have readable: "status_files w1 j \<noteq> Some Truncated" using sf w1 by simp
    have keep: "\<not> reserved_key k \<Longrightarrow> dict_get (stored w1 j) k = dict_get (stored w j) k" for k
      using sf w1 get [of k] by (auto simp: stored_def reserved_key_def)
    have st: "dict_get d' ''status'' = Some (JStr ''processing'')"
      and pr: "dict_get d' ''progress'' = Some (JInt p)"
      using get [of "''status''"] get [of "''progress''"] by simp_all
    from Cons.IH [OF readable rest] sl nw w1 keep st pr Some show ?thesis
      by (auto simp: map_filter_simps)
  qed
qed

lemma stage_steps_conforms:
  "list_all2 (conforms j)
     ([Some 0, None] @ (if ENABLE_SAM_SEGMENTATION cfg then [Some 10, None] else [None]) @
      [Some 20, None, Some 50, None, Some 70, None, Some 90, None])
     (stage_steps cfg env j)"
  by (auto simp: stage_steps_def conforms_def quiet_adapter quiet_make_stage_dirs
      quiet_create_white_masks quiet_export_glb)

lemma conforms_readable:
  fixes w :: world
  assumes "conforms j tag s" and "status_files w j \<noteq> Some Truncated"
  shows "status_files (snd (s w)) j \<noteq> Some Truncated"
proof (cases tag)
  case None
  with assms show ?thesis by (simp add: conforms_def quiet_def)
next
  case (Some p)
  with assms(1) obtain m where "s = update_job_status j ''processing'' p m []"
    by (auto simp: conforms_def)
  with assms(2) show ?thesis by (simp add: update_job_status_readable)
qed

lemma stage_steps_readable:
  assumes "status_files w j \<noteq> Some Truncated"
  shows "status_files (snd (run_steps (stage_steps cfg env j) w)) j \<noteq> Some Truncated"
proof (rule run_steps_invariant [where P = "\<lambda>w. status_files w j \<noteq> Some Truncated"])
  fix s and w :: world
  assume "s \<in> set (stage_steps cfg env j)" and r: "status_files w j \<noteq> Some Truncated"
  then obtain tag where "conforms j tag s"
    using stage_steps_conforms [of j cfg env] by (auto simp: list_all2_conv_all_nth in_set_conv_nth)
  from conforms_readable [OF this r] show "status_files (snd (s w)) j \<noteq> Some Truncated" .
qed (rule assms)

lemma update_job_status_extends:
  "\<exists>xs. status_log (snd (update_job_status j s p m kw w)) = status_log w @ xs"
  by (auto simp: update_job_status_def json_load_def utcnow_def json_dump_def open_w_def Let_def
      split: option.splits file_content.splits)

lemma conforms_extends:
  fixes w :: world
  assumes "conforms j tag s"
  shows "\<exists>xs. status_log (snd (s w)) = status_log w @ xs"
proof (cases tag)
  case None
  with assms show ?thesis by (simp add: conforms_def quiet_def)
next
  case (Some p)
  with assms show ?thesis by (auto simp: conforms_def update_job_status_extends)
qed

lemma run_steps_extends:
  assumes "list_all2 (conforms j) tags steps"
  shows "\<exists>xs. status_log (snd (run_steps steps w)) = status_log w @ xs"
proof (rule run_steps_invariant [where P = "\<lambda>w'. \<exists>xs. status_log w' = status_log w @ xs"])
  fix s and w1 :: world
  assume "s \<in> set steps" and "\<exists>xs. status_log w1 = status_log w @ xs"
  moreover from \<open>s \<in> set steps\<close> obtain tag where "conforms j tag s"
    using assms by (auto simp: list_all2_conv_all_nth in_set_conv_nth)
  ultimately show "\<exists>xs. status_log (snd (s w1)) = status_log w @ xs"
    using conforms_extends [of j tag s w1] by auto
qed simp

lemma stage_steps_extends:
  "\<exists>xs. status_log (snd (run_steps (stage_steps cfg env j) w)) = status_log w @ xs"
  by (rule run_steps_extends [OF stage_steps_conforms])

lemma on_exception_extends:
  "\<exists>xs. status_log (snd (on_exception env j exc w)) = status_log w @ xs"
  using update_job_status_extends
    [of j "''failed''" "int (retries env) * 10" "''Error: '' @ exn_str exc"
       "[(''error'', JStr (exn_str exc)), (''traceback'', JStr (format_exc exc))]" w]
  by (auto simp: on_exception_def Let_def split: prod.splits option.splits)

lemma except_Exception_extends:
  "\<exists>xs. status_log (snd (except_Exception env j exc w)) = status_log w @ xs"
  using on_exception_extends [of env j exc w] by (simp add: except_Exception_def)

section \<open>Lemmas: the executor\<close>

lemma export_glb_trimesh_load:
  "export_glb (env\<lparr>trimesh_load := L\<rparr>) p = export_glb env p"
  by (auto simp: fun_eq_iff export_glb_def Let_def
      split: outcome.splits export_outcome.splits gltf_outcome.splits)

lemma create_white_masks_trimesh_load:
  "create_white_masks (env\<lparr>trimesh_load := L\<rparr>) j = create_white_masks env j"
  by (simp add: fun_eq_iff create_white_masks_def glob_images_def split: option.splits)

lemma stage_steps_trimesh_load [simp]:
  "stage_steps cfg (env\<lparr>trimesh_load := L\<rparr>) j = stage_steps cfg env j"
  by (simp add: stage_steps_def create_white_masks_trimesh_load export_glb_trimesh_load)

lemma utcnow_frame:
  "status_files (snd (utcnow w)) = status_files w"
  "status_log (snd (utcnow w)) = status_log w"
  "artifacts (snd (utcnow w)) = artifacts w"
  "workspaces (snd (utcnow w)) = workspaces w"
  "now (snd (utcnow w)) = now w + elapse w (ticks w)"
  "fst (utcnow w) = now w + elapse w (ticks w)"
  by (simp_all add: utcnow_def Let_def)

lemma run_reconstruction_after_stages:
  assumes "run_steps (stage_steps cfg env j) w = (None, w1)"
    and "compute_qa_metrics env (artifact_path j) w1 = Inr metrics"
  shows "run_reconstruction cfg env j opts w =
     (case update_job_status j ''completed'' 100 ''Reconstruction complete''
             [(''completed_at'', JTime (now w1 + elapse w1 (ticks w1))),
              (''metrics'', JObj metrics)]
             (snd (utcnow w1)) of
        (Some exc, w3) \<Rightarrow> except_Exception env j exc w3
      | (None, w3) \<Rightarrow>
          (Inr [(''job_id'', JStr j), (''status'', JStr ''completed''), (''progress'', JInt 100),
                (''metrics'', JObj metrics)], w3))"
  using assms by (simp add: run_reconstruction_def utcnow_def Let_def)

lemma run_reconstruction_completes:
  assumes readable: "status_files w j \<noteq> Some Truncated"
    and stages: "run_steps (stage_steps cfg env j) w = (None, w1)"
    and metrics: "compute_qa_metrics env (artifact_path j) w1 = Inr metrics"
  obtains d w' where
    "run_reconstruction cfg env j opts w =
       (Inr [(''job_id'', JStr j), (''status'', JStr ''completed''), (''progress'', JInt 100),
             (''metrics'', JObj metrics)], w')"
    "status_files w' = (status_files w1)(j \<mapsto> Document d)"
    "status_log w' = status_log w1 @ [(j, d)]"
    "artifacts w' = artifacts w1"
    "workspaces w' = workspaces w1"
    "dict_get d ''status'' = Some (JStr ''completed'')"
    "dict_get d ''progress'' = Some (JInt 100)"
    "dict_get d ''message'' = Some (JStr ''Reconstruction complete'')"
    "dict_get d ''completed_at'' = Some (JTime (now w1 + elapse w1 (ticks w1)))"
    "dict_get d ''metrics'' = Some (JObj metrics)"
    "\<And>k. \<not> reserved_key k \<Longrightarrow> k \<noteq> ''completed_at'' \<Longrightarrow> k \<noteq> ''metrics'' \<Longrightarrow>
        dict_get d k = dict_get (stored w1 j) k"
proof -
  define w2 where "w2 = snd (utcnow w1)"
  define kw where "kw = [(''completed_at'', JTime (now w1 + elapse w1 (ticks w1))),
        (''metrics'', JObj metrics)]"
  have bk: "bind_kwargs kw = None" by (simp add: kw_def)
  have "status_files w1 j \<noteq> Some Truncated"
    using stage_steps_readable [OF readable, of cfg env] stages by simp
  then have r2: "status_files w2 j \<noteq> Some Truncated"
    by (simp add: w2_def utcnow_frame)
  from update_job_status_effect [where s = "''completed''" and p = 100
      and m = "''Reconstruction complete''", OF r2 bk]
  obtain d w3 where
    run: "update_job_status j ''completed'' 100 ''Reconstruction complete'' kw w2 = (None, w3)"
    and sf: "status_files w3 = (status_files w2)(j \<mapsto> Document d)"
    and sl: "status_log w3 = status_log w2 @ [(j, d)]"
    and ar: "artifacts w3 = artifacts w2"
    and ws: "workspaces w3 = workspaces w2"
    and get: "\<And>k. dict_get d k =
       (case map_of (rev ([(''status'', JStr ''completed''), (''progress'', JInt 100),
              (''message'', JStr ''Reconstruction complete''),
              (''updated_at'', JTime (now w3))] @ kw)) k of
          Some v \<Rightarrow> Some v
        | None \<Rightarrow> dict_get (stored w2 j) k)"
    by blast
  have st2: "stored w2 j = stored w1 j" by (simp add: stored_def w2_def utcnow_frame)
  have 1: "run_reconstruction cfg env j opts w =
       (Inr [(''job_id'', JStr j), (''status'', JStr ''completed''), (''progress'', JInt 100),
             (''metrics'', JObj metrics)], w3)"
    using run unfolding run_reconstruction_after_stages [OF stages metrics] kw_def w2_def by simp
  have 2: "status_files w3 = (status_files w1)(j \<mapsto> Document d)"
    using sf by (simp add: w2_def utcnow_frame)
  have 3: "status_log w3 = status_log w1 @ [(j, d)]"
    using sl by (simp add: w2_def utcnow_frame)
  have 4: "artifacts w3 = artifacts w1" using ar by (simp add: w2_def utcnow_frame)
  have 5: "workspaces w3 = workspaces w1" using ws by (simp add: w2_def utcnow_frame)
  have 6: "dict_get d ''status'' = Some (JStr ''completed'')"
    using get [of "''status''"] by (simp add: kw_def)
  have 7: "dict_get d ''progress'' = Some (JInt 100)"
    using get [of "''progress''"] by (simp add: kw_def)
  have 8: "dict_get d ''message'' = Some (JStr ''Reconstruction complete'')"
    using get [of "''message''"] by (simp add: kw_def)
  have 9: "dict_get d ''completed_at'' = Some (JTime (now w1 + elapse w1 (ticks w1)))"
    using get [of "''completed_at''"] by (simp add: kw_def)
  have 10: "dict_get d ''metrics'' = Some (JObj metrics)"
    using get [of "''metrics''"] by (simp add: kw_def)
  have 11: "dict_get d k = dict_get (stored w1 j) k"
    if "\<not> reserved_key k" "k \<noteq> ''completed_at''" "k \<noteq> ''metrics''" for k
    using get [of k] that by (simp add: kw_def reserved_key_def st2)
  from 1 2 3 4 5 6 7 8 9 10 11 show thesis by (rule that)
qed

lemma white_masks_succeed:
  "(\<And>img. pil img = Done) \<Longrightarrow> fst (white_masks pil j imgs w) = None"
  by (induction imgs arbitrary: w) simp_all

lemma run_steps_succeed:
  assumes "list_all2 (conforms j) tags steps"
    and "\<And>s w. s \<in> set steps \<Longrightarrow> quiet s \<Longrightarrow> fst (s w) = None"
    and "status_files w j \<noteq> Some Truncated"
  shows "fst (run_steps steps w) = None"
  using assms
proof (induction tags steps arbitrary: w rule: list_all2_induct)
  case Nil
  then show ?case by simp
next
  case (Cons tag tags s steps)
  have ok: "fst (s w) = None"
  proof (cases tag)
    case None
    with Cons.hyps(1) have "quiet s" by (simp add: conforms_def)
    then show ?thesis using Cons.prems(1) by simp
  next
    case (Some p)
    with Cons.hyps(1) obtain m where s: "s = update_job_status j ''processing'' p m []"
      by (auto simp: conforms_def)
    from update_job_status_effect [where s = "''processing''" and p = p and m = m and kw = "[]",
        OF Cons.prems(2) bind_kwargs_simps(1)] s
    show ?thesis by (metis fst_conv)
  qed
  have "status_files (snd (s w)) j \<noteq> Some Truncated"
    by (rule conforms_readable [OF Cons.hyps(1) Cons.prems(2)])
  then have "fst (run_steps steps (snd (s w))) = None"
    using Cons.IH Cons.prems(1) by simp
  with ok show ?case by (cases "s w") simp
qed

lemma update_job_status_not_quiet: "\<not> quiet (update_job_status j s p m [])"
proof
  assume q: "quiet (update_job_status j s p m [])"
  have "status_files world0 j \<noteq> Some Truncated" by (simp add: world0_def)
  from update_job_status_effect [where s = s and p = p and m = m and kw = "[]",
      OF this bind_kwargs_simps(1)]
  obtain d' w1 where "update_job_status j s p m [] world0 = (None, w1)"
    and "status_log w1 = status_log world0 @ [(j, d')]" by blast
  moreover from q have "status_log (snd (update_job_status j s p m [] world0)) = status_log world0"
    by (simp add: quiet_def)
  ultimately show False by simp
qed

lemma stage_steps_succeed:
  assumes "status_files w j \<noteq> Some Truncated"
    and "run_sam_segmentation env = Done" and "\<And>img. pil_white_mask env img = Done"
    and "run_openmvg env = Done" and "run_openmvs_pipeline env = Done"
    and "run_postprocessing env = Done" and "prepare_mesh env = Done"
    and "(\<exists>b. mesh_export_glb env = Written b) \<or>
         (\<exists>e p. mesh_export_glb env = ExportFailed e p \<and> is_Exception e) \<and>
         (\<exists>b bs. mesh_export_gltf env = GltfWritten b bs)"
  shows "fst (run_steps (stage_steps cfg env j) w) = None"
proof (rule run_steps_succeed [OF stage_steps_conforms _ assms(1)])
  fix s and w :: world
  assume "s \<in> set (stage_steps cfg env j)" and q: "quiet s"
  then consider "s = make_stage_dirs j" | "s = adapter Done" | "s = create_white_masks env j"
    | "s = export_glb env (artifact_path j)" | m p where "s = update_job_status j ''processing'' p m []"
    using assms(2-7) by (auto simp: stage_steps_def split: if_splits)
  then show "fst (s w) = None"
  proof cases
    case 1
    then show ?thesis by (simp add: make_stage_dirs_def)
  next
    case 2
    then show ?thesis by (simp add: adapter_def)
  next
    case 3
    then show ?thesis by (simp add: create_white_masks_def white_masks_succeed assms(3))
  next
    case 4
    with assms(7,8) show ?thesis by (auto simp: export_glb_def Let_def)
  next
    case 5
    with q show ?thesis by (simp add: update_job_status_not_quiet)
  qed
qed

section \<open>Claims\<close>

text \<open>
  C9. Deleting a job with a well-formed id succeeds whatever exists beforehand, and
  leaves no workspace, no artifact and no status file for that id; a second deletion
  right after the first succeeds again and changes nothing.
\<close>

theorem delete_job_idempotent:
  assumes "uuid_ok lib j"
  shows "\<exists>w1. delete_job lib j w =
            (Inr [(''message'', JStr (''Job '' @ j @ '' deleted successfully''))], w1) \<and>
          delete_job lib j w1 =
            (Inr [(''message'', JStr (''Job '' @ j @ '' deleted successfully''))], w1) \<and>
          workspaces w1 j = None \<and> artifacts w1 (artifact_path j) = None \<and>
          status_files w1 j = None"
  using assms by (auto simp: delete_job_def rmtree_def Let_def)

theorem delete_job_idempotent_witness:
  "uuid_ok lib0 job0 \<and>
   (\<exists>w1. delete_job lib0 job0 world_processing =
            (Inr [(''message'', JStr (''Job '' @ job0 @ '' deleted successfully''))], w1) \<and>
          delete_job lib0 job0 w1 =
            (Inr [(''message'', JStr (''Job '' @ job0 @ '' deleted successfully''))], w1) \<and>
          workspaces w1 job0 = None \<and> artifacts w1 (artifact_path job0) = None \<and>
          status_files w1 job0 = None)"
proof -
  have h: "uuid_ok lib0 job0" by (simp add: lib0_def job0_def)
  from delete_job_idempotent [OF h, of world_processing] h show ?thesis by blast
qed

text \<open>
  C8. For a well-formed id with a stored, non-empty status record: the artifact fetch
  returns the model file only when the status is \<open>completed\<close> (and the file exists); with
  any other status it fails with 409 and a detail that names the current status; with
  status \<open>completed\<close> and no artifact file it fails with 404.
\<close>

theorem get_artifact_cases:
  assumes "uuid_ok lib j" and "status_files w j = Some (Document d)" and "d \<noteq> []"
  shows "(\<forall>resp. get_artifact lib j w = Inr resp \<longrightarrow>
            dict_get d ''status'' = Some (JStr ''completed'') \<and> artifacts w (path resp) \<noteq> None) \<and>
         (dict_get d ''status'' \<noteq> Some (JStr ''completed'') \<longrightarrow>
            get_artifact lib j w = Inl (HTTPException 409
              [Lit ''Job not completed yet. Current status: '',
               Val (case dict_get d ''status'' of None \<Rightarrow> JStr ''unknown'' | Some v \<Rightarrow> v)])) \<and>
         (dict_get d ''status'' = Some (JStr ''completed'') \<and> artifacts w (artifact_path j) = None \<longrightarrow>
            get_artifact lib j w = Inl (HTTPException 404 [Lit ''Artifact file not found''])) \<and>
         (dict_get d ''status'' = Some (JStr ''completed'') \<and> artifacts w (artifact_path j) \<noteq> None \<longrightarrow>
            get_artifact lib j w = Inr \<lparr>path = artifact_path j, media_type = ''model/gltf-binary'',
                                        download_name = ''atlas-'' @ j @ ''.glb''\<rparr>)"
  using assms
  by (auto simp: get_artifact_def get_job_status_helper_def json_load_def Let_def)

theorem get_artifact_cases_witness:
  "uuid_ok lib0 job0 \<and>
   status_files world_processing job0 = Some (Document record_processing) \<and>
   record_processing \<noteq> [] \<and>
   get_artifact lib0 job0 world_processing =
     Inl (HTTPException 409 [Lit ''Job not completed yet. Current status: '', Val (JStr ''processing'')])"
proof -
  have h1: "uuid_ok lib0 job0" by (simp add: lib0_def job0_def)
  have h2: "status_files world_processing job0 = Some (Document record_processing)"
    by (simp add: world_processing_def world0_def)
  have h3: "record_processing \<noteq> []" by (simp add: record_processing_def)
  have st: "dict_get record_processing ''status'' = Some (JStr ''processing'')"
    by (simp add: record_processing_def dict_get_def)
  from get_artifact_cases [OF h1 h2 h3] st h1 h2 h3 show ?thesis by simp
qed

lemma delivery_ok_stages:
  "fst (run_steps (stage_steps cfg0 delivery_ok job0) world_processing) = None"
proof (rule stage_steps_succeed)
  show "status_files world_processing job0 \<noteq> Some Truncated"
    by (simp add: world_processing_def world0_def)
  show "(\<exists>b. mesh_export_glb delivery_ok = Written b) \<or>
         (\<exists>e p. mesh_export_glb delivery_ok = ExportFailed e p \<and> is_Exception e) \<and>
         (\<exists>b bs. mesh_export_gltf delivery_ok = GltfWritten b bs)"
    by (simp add: delivery_ok_def)
qed (simp_all add: delivery_ok_def)

lemma stage_steps_truncated:
  "status_files w j = Some Truncated \<Longrightarrow>
   run_steps (stage_steps cfg env j) w = (Some JSONDecodeError, w)"
  by (simp add: stage_steps_def update_job_status_truncated)

lemma stage_steps_returned:
  assumes "run_steps (stage_steps cfg env j) w = (None, w1)"
  shows "status_files w j \<noteq> Some Truncated"
proof
  assume "status_files w j = Some Truncated"
  from stage_steps_truncated [OF this, of cfg env] assms show False by simp
qed



lemma analyze_exception: "fst (analyze mesh m) = metrics_exception (Ok mesh)"
  by (simp add: metrics_exception_def analyze_def Let_def
      split: loaded_mesh.splits attempt.splits option.splits)

lemma compute_qa_metrics_returns:
  assumes "artifacts w p = None \<or> (\<forall>e. metrics_exception (trimesh_load env) = Some e \<longrightarrow> is_Exception e)"
  shows "\<exists>metrics. compute_qa_metrics env p w = Inr metrics"
proof (cases "artifacts w p")
  case None
  then show ?thesis by (simp add: compute_qa_metrics_def)
next
  case (Some b)
  with assms have ok: "\<And>e. metrics_exception (trimesh_load env) = Some e \<Longrightarrow> is_Exception e"
    by auto
  show ?thesis
  proof (cases "trimesh_load env")
    case (Fails e)
    with ok [of e] Some show ?thesis
      by (simp add: compute_qa_metrics_def metrics_exception_def)
  next
    case (Ok mesh)
    define m0 where "m0 = set_key ''file_size_mb'' (JFloat (size_mb (length b))) default_metrics"
    obtain r m where an: "analyze mesh m0 = (r, m)" by (cases "analyze mesh m0")
    with analyze_exception [of mesh m0] Ok
    have r: "metrics_exception (trimesh_load env) = r" by simp
    show ?thesis
    proof (cases r)
      case None
      with an Ok Some show ?thesis by (simp add: compute_qa_metrics_def m0_def)
    next
      case (Some e)
      with r ok [of e] have "is_Exception e" by simp
      with an Ok \<open>artifacts w p = Some b\<close> \<open>r = Some e\<close> show ?thesis
        by (simp add: compute_qa_metrics_def m0_def)
    qed
  qed
qed




lemmas exec_defs = run_reconstruction_def stage_steps_def run_steps.simps update_job_status_def
  json_load_def utcnow_def json_dump_def open_w_def make_stage_dirs_def makedirs_def
  create_white_masks_def glob_images_def adapter_def export_glb_def on_exception_def
  except_Exception_def compute_qa_metrics_def
  dict_update_def dict_literal_def dict_get_def Let_def

lemmas example_defs = cfg0_def delivery_ok_def world_processing_def world0_def
  record_processing_def job0_def




lemma on_exception_raises: "\<exists>e. fst (on_exception env j exc w) = Inl e"
  by (simp add: on_exception_def Let_def split: prod.splits option.splits)

lemma except_Exception_raises: "\<exists>e. fst (except_Exception env j exc w) = Inl e"
  using on_exception_raises [of env j exc w] by (simp add: except_Exception_def)

lemma run_reconstruction_returned:
  assumes "run_reconstruction cfg env j opts w = (Inr result, w')"
  obtains w1 metrics where "status_files w j \<noteq> Some Truncated"
    and "run_steps (stage_steps cfg env j) w = (None, w1)"
    and "compute_qa_metrics env (artifact_path j) w1 = Inr metrics"
proof -
  obtain r w1 where rs: "run_steps (stage_steps cfg env j) w = (r, w1)"
    by (cases "run_steps (stage_steps cfg env j) w")
  have r: "r = None"
  proof (cases r)
    case (Some exc)
    with rs have "run_reconstruction cfg env j opts w = except_Exception env j exc w1"
      by (simp add: run_reconstruction_def)
    with except_Exception_raises [of env j exc w1] assms show ?thesis by auto
  qed simp
  have readable: "status_files w j \<noteq> Some Truncated"
    by (rule stage_steps_returned [OF rs [unfolded r]])
  obtain metrics where "compute_qa_metrics env (artifact_path j) w1 = Inr metrics"
  proof (cases "compute_qa_metrics env (artifact_path j) w1")
    case (Inl exc)
    with rs r have "run_reconstruction cfg env j opts w = except_Exception env j exc w1"
      by (simp add: run_reconstruction_def)
    with except_Exception_raises [of env j exc w1] assms show ?thesis by auto
  next
    case (Inr metrics)
    then show ?thesis by (rule that)
  qed
  with readable rs r that show thesis by simp
qed

text \<open>
  C6. For a run of the executor that returns (the job reaches \<open>completed\<close>): the status
  documents it wrote, in order, carry the progress values 0, (10 when segmentation is
  enabled,) 20, 50, 70, 90, 100, a non-decreasing sequence; all but the last are written
  with status \<open>processing\<close> and the last with status \<open>completed\<close> and progress 100; and
  when the record held a \<open>created_at\<close> that is not in the future, it is kept and the
  \<open>completed_at\<close> written is not earlier.
\<close>

theorem completed_run_progress:
  assumes "run_reconstruction cfg env j opts w = (Inr result, w')"
  shows "\<exists>trail ps.
     ps = [0] @ (if ENABLE_SAM_SEGMENTATION cfg then [10] else []) @ [20, 50, 70, 90, 100] \<and>
     status_log w' = status_log w @ trail \<and>
     map fst trail = replicate (length ps) j \<and>
     map (\<lambda>e. dict_get (snd e) ''progress'') trail = map (\<lambda>p. Some (JInt p)) ps \<and>
     map (\<lambda>e. dict_get (snd e) ''status'') trail =
       replicate (length ps - 1) (Some (JStr ''processing'')) @ [Some (JStr ''completed'')] \<and>
     sorted ps \<and> hd ps = 0 \<and> last ps = 100 \<and>
     dict_get (stored w' j) ''status'' = Some (JStr ''completed'') \<and>
     dict_get (stored w' j) ''progress'' = Some (JInt 100) \<and>
     (\<forall>c. dict_get (stored w j) ''created_at'' = Some (JTime c) \<and> c \<le> now w \<longrightarrow>
        (\<exists>t. dict_get (stored w' j) ''completed_at'' = Some (JTime t) \<and>
             dict_get (stored w' j) ''created_at'' = Some (JTime c) \<and> c \<le> t))"
proof -
  from run_reconstruction_returned [OF assms]
  obtain w1 metrics where readable: "status_files w j \<noteq> Some Truncated"
    and stages: "run_steps (stage_steps cfg env j) w = (None, w1)"
    and metrics: "compute_qa_metrics env (artifact_path j) w1 = Inr metrics" by blast
  define tags where "tags = [Some 0, None] @
      (if ENABLE_SAM_SEGMENTATION cfg then [Some 10, None] else [None]) @
      [Some 20, None, Some 50, None, Some 70, None, Some 90, None :: int option]"
  define qs where "qs = [0] @ (if ENABLE_SAM_SEGMENTATION cfg then [10] else []) @ [20, 50, 70, 90 :: int]"
  have mf: "List.map_filter id tags = qs"
    by (simp add: tags_def qs_def map_filter_simps)
  have conf: "list_all2 (conforms j) tags (stage_steps cfg env j)"
    unfolding tags_def by (rule stage_steps_conforms)
  note T = run_steps_trail [OF conf readable stages, unfolded mf]
  from T have now1: "now w \<le> now w1" by (elim conjE)
  from T have keep: "\<forall>k. \<not> reserved_key k \<longrightarrow> dict_get (stored w1 j) k = dict_get (stored w j) k"
    by (elim conjE)
  have keep1: "dict_get (stored w1 j) k = dict_get (stored w j) k" if "\<not> reserved_key k" for k
    using keep that by (elim allE [of _ k] impE)
  from T obtain trail1 where log1: "status_log w1 = status_log w @ trail1"
    and obs1: "map (\<lambda>e. (fst e, dict_get (snd e) ''status'', dict_get (snd e) ''progress'')) trail1 =
        map (\<lambda>p. (j, Some (JStr ''processing''), Some (JInt p))) qs"
    by (elim conjE exE) (rule that)
  have len1: "length trail1 = length qs"
    using arg_cong [OF obs1, of length] by simp
  have fst1: "map fst trail1 = replicate (length qs) j"
    using arg_cong [OF obs1, of "map fst"] by (simp add: o_def map_replicate_const)
  have st1: "map (\<lambda>e. dict_get (snd e) ''status'') trail1 = replicate (length qs) (Some (JStr ''processing''))"
    using arg_cong [OF obs1, of "map (\<lambda>t. fst (snd t))"] by (simp add: o_def map_replicate_const)
  have pr1: "map (\<lambda>e. dict_get (snd e) ''progress'') trail1 = map (\<lambda>p. Some (JInt p)) qs"
    using arg_cong [OF obs1, of "map (\<lambda>t. snd (snd t))"] by (simp add: o_def)
  show ?thesis
  proof (rule run_reconstruction_completes [OF readable stages metrics, of opts], goal_cases)
    case (1 d w'')
    from 1(1) assms have w': "w'' = w'" by simp
    have sd: "stored w' j = d" using 1(2) w' by (simp add: stored_def)
    have log: "status_log w' = status_log w @ (trail1 @ [(j, d)])"
      using 1(3) log1 w' by simp
    have created: "\<exists>t. dict_get (stored w' j) ''completed_at'' = Some (JTime t) \<and>
             dict_get (stored w' j) ''created_at'' = Some (JTime c) \<and> c \<le> t"
      if c: "dict_get (stored w j) ''created_at'' = Some (JTime c) \<and> c \<le> now w" for c
    proof -
      have "dict_get d ''created_at'' = dict_get (stored w1 j) ''created_at''"
        by (rule 1(11)) (simp_all add: reserved_key_def)
      also have "\<dots> = dict_get (stored w j) ''created_at''"
        by (rule keep1) (simp add: reserved_key_def)
      finally have "dict_get d ''created_at'' = Some (JTime c)" using c by simp
      moreover have "c \<le> now w1 + elapse w1 (ticks w1)" using c now1 by simp
      ultimately show ?thesis using 1(9) sd by simp
    qed
    show ?case
    proof (rule exI [of _ "trail1 @ [(j, d)]"], rule exI [of _ "qs @ [100]"], intro conjI)
      show "qs @ [100] = [0] @ (if ENABLE_SAM_SEGMENTATION cfg then [10] else []) @ [20, 50, 70, 90, 100]"
        by (simp add: qs_def)
      show "status_log w' = status_log w @ (trail1 @ [(j, d)])" by (rule log)
      show "map fst (trail1 @ [(j, d)]) = replicate (length (qs @ [100])) j"
        using fst1 by (simp add: replicate_append_same)
      show "map (\<lambda>e. dict_get (snd e) ''progress'') (trail1 @ [(j, d)]) = map (\<lambda>p. Some (JInt p)) (qs @ [100])"
        using pr1 1(7) by simp
      show "map (\<lambda>e. dict_get (snd e) ''status'') (trail1 @ [(j, d)]) =
          replicate (length (qs @ [100]) - 1) (Some (JStr ''processing'')) @ [Some (JStr ''completed'')]"
        using st1 1(6) by simp
      show "sorted (qs @ [100])" by (simp add: qs_def)
      show "hd (qs @ [100]) = 0" by (simp add: qs_def)
      show "last (qs @ [100]) = 100" by simp
      show "dict_get (stored w' j) ''status'' = Some (JStr ''completed'')" using 1(6) sd by simp
      show "dict_get (stored w' j) ''progress'' = Some (JInt 100)" using 1(7) sd by simp
      show "\<forall>c. dict_get (stored w j) ''created_at'' = Some (JTime c) \<and> c \<le> now w \<longrightarrow>
        (\<exists>t. dict_get (stored w' j) ''completed_at'' = Some (JTime t) \<and>
             dict_get (stored w' j) ''created_at'' = Some (JTime c) \<and> c \<le> t)"
        by (intro allI impI) (rule created)
    qed
  qed
qed

theorem completed_run_progress_witness:
  "\<exists>result w'.
     run_reconstruction cfg0 delivery_ok job0 (JObj []) world_processing = (Inr result, w') \<and>
     (\<exists>trail. status_log w' = status_log world_processing @ trail \<and>
        map (\<lambda>e. dict_get (snd e) ''progress'') trail =
        map (\<lambda>p. Some (JInt p)) [0, 20, 50, 70, 90, 100]) \<and>
     (\<exists>t. dict_get (stored w' job0) ''completed_at'' = Some (JTime t) \<and> 900 \<le> t)"
proof -
  have h1: "status_files world_processing job0 \<noteq> Some Truncated"
    by (simp add: world_processing_def world0_def)
  have h2: "run_steps (stage_steps cfg0 delivery_ok job0) world_processing =
      (None, snd (run_steps (stage_steps cfg0 delivery_ok job0) world_processing))"
    by (rule prod_eqI) (simp_all add: delivery_ok_stages)
  have "artifacts (snd (run_steps (stage_steps cfg0 delivery_ok job0) world_processing))
          (artifact_path job0) = None \<or>
        (\<forall>e. metrics_exception (trimesh_load delivery_ok) = Some e \<longrightarrow> is_Exception e)"
    by (simp add: delivery_ok_def metrics_exception_def analyze_def)
  from compute_qa_metrics_returns [OF this]
  obtain metrics where h3: "compute_qa_metrics delivery_ok (artifact_path job0)
      (snd (run_steps (stage_steps cfg0 delivery_ok job0) world_processing)) = Inr metrics"
    by blast
  obtain result w' where run:
    "run_reconstruction cfg0 delivery_ok job0 (JObj []) world_processing = (Inr result, w')"
    by (rule run_reconstruction_completes [OF h1 h2 h3, of "JObj []"])
  have created: "dict_get (stored world_processing job0) ''created_at'' = Some (JTime 900) \<and>
      900 \<le> now world_processing"
    by (simp add: stored_def world_processing_def world0_def record_processing_def dict_get_def)
  have sam: "\<not> ENABLE_SAM_SEGMENTATION cfg0" by (simp add: cfg0_def)
  from completed_run_progress [OF run]
  obtain trail ps where
    ps: "ps = [0] @ (if ENABLE_SAM_SEGMENTATION cfg0 then [10] else []) @ [20, 50, 70, 90, 100]"
    and log: "status_log w' = status_log world_processing @ trail"
    and pr: "map (\<lambda>e. dict_get (snd e) ''progress'') trail = map (\<lambda>p. Some (JInt p)) ps"
    and tm: "\<forall>c. dict_get (stored world_processing job0) ''created_at'' = Some (JTime c) \<and>
                c \<le> now world_processing \<longrightarrow>
        (\<exists>t. dict_get (stored w' job0) ''completed_at'' = Some (JTime t) \<and>
             dict_get (stored w' job0) ''created_at'' = Some (JTime c) \<and> c \<le> t)"
    by (elim exE conjE) (rule that)
  from ps sam have ps': "ps = [0, 20, 50, 70, 90, 100]" by simp
  from tm created have "\<exists>t. dict_get (stored w' job0) ''completed_at'' = Some (JTime t) \<and>
             dict_get (stored w' job0) ''created_at'' = Some (JTime 900) \<and> 900 \<le> t"
    by (elim allE [of _ 900] impE) assumption+
  then obtain t where
    "dict_get (stored w' job0) ''completed_at'' = Some (JTime t)" and "900 \<le> t"
    by (elim exE conjE) (rule that)
  with run log pr ps' show ?thesis by (intro exI conjI) simp_all
qed

lemma format_exc_nonempty: "format_exc e \<noteq> []"
  by (simp add: format_exc_def)

lemma run_reconstruction_caught:
  assumes "status_files w j \<noteq> Some Truncated"
    and "run_steps (stage_steps cfg env j) w = (Some exc, w1)"
    and exc: "is_Exception exc"
  shows "\<exists>w' d. run_reconstruction cfg env j opts w = (Inl exc, w') \<and>
              status_files w' j = Some (Document d) \<and>
              status_log w' = status_log w1 @ [(j, d)] \<and>
              artifacts w' = artifacts w1 \<and> workspaces w' = workspaces w1 \<and>
              dict_get d ''status'' = Some (JStr ''failed'') \<and>
              dict_get d ''progress'' = Some (JInt (int (retries env) * 10)) \<and>
              dict_get d ''message'' = Some (JStr (''Error: '' @ exn_str exc)) \<and>
              dict_get d ''error'' = Some (JStr (exn_str exc)) \<and>
              dict_get d ''traceback'' = Some (JStr (format_exc exc)) \<and>
              format_exc exc \<noteq> []"
proof -
  define kw where "kw = [(''error'', JStr (exn_str exc)), (''traceback'', JStr (format_exc exc))]"
  have bk: "bind_kwargs kw = None" by (simp add: kw_def)
  have r1: "status_files w1 j \<noteq> Some Truncated"
    using stage_steps_readable [OF assms(1), of cfg env] assms(2) by simp
  have run: "run_reconstruction cfg env j opts w = except_Exception env j exc w1"
    using assms(2) by (simp add: run_reconstruction_def)
  show ?thesis
  proof (rule update_job_status_effect [where s = "''failed''" and p = "int (retries env) * 10"
        and m = "''Error: '' @ exn_str exc", OF r1 bk], goal_cases)
    case (1 d w')
    have a: "run_reconstruction cfg env j opts w = (Inl exc, w')"
      using 1(1) exc by (simp add: run except_Exception_def on_exception_def kw_def)
    have b: "status_files w' j = Some (Document d)" using 1(2) by simp
    have c: "dict_get d ''status'' = Some (JStr ''failed'')"
      using 1(8) [of "''status''"] by (simp add: kw_def)
    have d: "dict_get d ''progress'' = Some (JInt (int (retries env) * 10))"
      using 1(8) [of "''progress''"] by (simp add: kw_def)
    have e: "dict_get d ''message'' = Some (JStr (''Error: '' @ exn_str exc))"
      using 1(8) [of "''message''"] by (simp add: kw_def)
    have f: "dict_get d ''error'' = Some (JStr (exn_str exc))"
      using 1(8) [of "''error''"] by (simp add: kw_def)
    have g: "dict_get d ''traceback'' = Some (JStr (format_exc exc))"
      using 1(8) [of "''traceback''"] by (simp add: kw_def)
    show ?case by (rule exI conjI a b 1(3) 1(5) 1(6) c d e f g format_exc_nonempty)+
  qed
qed

text \<open>
  C3 (as the code has it). When a stage of the \<^verbatim>\<open>try\<close> body raises \<open>exc\<close> and the status
  file is readable: if \<open>exc\<close> is an exception that \<^verbatim>\<open>except Exception\<close> catches, nothing
  further runs but the status write of the handler, with status \<open>failed\<close>, progress ten
  times the retry count of the delivery, message \<open>Error: \<close> followed by \<^verbatim>\<open>str(exc)\<close>,
  \<open>error\<close> equal to \<^verbatim>\<open>str(exc)\<close> and a non-empty traceback, and then \<open>exc\<close> is re-raised;
  any other exception leaves the task at once and no status is written.
\<close>

theorem failed_run_record:
  assumes "status_files w j \<noteq> Some Truncated"
    and "run_steps (stage_steps cfg env j) w = (Some exc, w1)"
  shows "(is_Exception exc \<longrightarrow>
           (\<exists>w' d. run_reconstruction cfg env j opts w = (Inl exc, w') \<and>
              status_files w' j = Some (Document d) \<and>
              status_log w' = status_log w1 @ [(j, d)] \<and>
              artifacts w' = artifacts w1 \<and> workspaces w' = workspaces w1 \<and>
              dict_get d ''status'' = Some (JStr ''failed'') \<and>
              dict_get d ''progress'' = Some (JInt (int (retries env) * 10)) \<and>
              dict_get d ''message'' = Some (JStr (''Error: '' @ exn_str exc)) \<and>
              dict_get d ''error'' = Some (JStr (exn_str exc)) \<and>
              dict_get d ''traceback'' = Some (JStr (format_exc exc)) \<and>
              format_exc exc \<noteq> [])) \<and>
         (\<not> is_Exception exc \<longrightarrow> run_reconstruction cfg env j opts w = (Inl exc, w1))"
proof (intro conjI impI)
  assume "is_Exception exc"
  then show "\<exists>w' d. run_reconstruction cfg env j opts w = (Inl exc, w') \<and>
              status_files w' j = Some (Document d) \<and>
              status_log w' = status_log w1 @ [(j, d)] \<and>
              artifacts w' = artifacts w1 \<and> workspaces w' = workspaces w1 \<and>
              dict_get d ''status'' = Some (JStr ''failed'') \<and>
              dict_get d ''progress'' = Some (JInt (int (retries env) * 10)) \<and>
              dict_get d ''message'' = Some (JStr (''Error: '' @ exn_str exc)) \<and>
              dict_get d ''error'' = Some (JStr (exn_str exc)) \<and>
              dict_get d ''traceback'' = Some (JStr (format_exc exc)) \<and>
              format_exc exc \<noteq> []"
    by (rule run_reconstruction_caught [OF assms])
next
  assume "\<not> is_Exception exc"
  then show "run_reconstruction cfg env j opts w = (Inl exc, w1)"
    using assms(2) by (simp add: run_reconstruction_def except_Exception_def)
qed

lemma dense_fails_stages:
  "fst (run_steps (stage_steps cfg0 delivery_dense_fails job0) world_processing) =
     Some (Exn ''RuntimeError'' ''No sfm_data found in sparse'' [])"
  by (simp add: exec_defs example_defs delivery_dense_fails_def)

lemma dense_interrupted_stages:
  "fst (run_steps (stage_steps cfg0 delivery_dense_interrupted job0) world_processing) =
     Some KeyboardInterrupt"
  by (simp add: exec_defs example_defs delivery_dense_interrupted_def)

theorem failed_run_record_witness:
  "status_files world_processing job0 \<noteq> Some Truncated \<and>
   fst (run_steps (stage_steps cfg0 delivery_dense_fails job0) world_processing) =
     Some (Exn ''RuntimeError'' ''No sfm_data found in sparse'' []) \<and>
   is_Exception (Exn ''RuntimeError'' ''No sfm_data found in sparse'' []) \<and>
   (\<exists>w' d. run_reconstruction cfg0 delivery_dense_fails job0 (JObj []) world_processing =
       (Inl (Exn ''RuntimeError'' ''No sfm_data found in sparse'' []), w') \<and>
     status_files w' job0 = Some (Document d) \<and>
     dict_get d ''status'' = Some (JStr ''failed'') \<and>
     dict_get d ''error'' = Some (JStr ''No sfm_data found in sparse'')) \<and>
   fst (run_steps (stage_steps cfg0 delivery_dense_interrupted job0) world_processing) =
     Some KeyboardInterrupt \<and>
   \<not> is_Exception KeyboardInterrupt \<and>
   run_reconstruction cfg0 delivery_dense_interrupted job0 (JObj []) world_processing =
     (Inl KeyboardInterrupt,
      snd (run_steps (stage_steps cfg0 delivery_dense_interrupted job0) world_processing))"
proof -
  have h1: "status_files world_processing job0 \<noteq> Some Truncated"
    by (simp add: world_processing_def world0_def)
  have h2: "run_steps (stage_steps cfg0 delivery_dense_fails job0) world_processing =
      (Some (Exn ''RuntimeError'' ''No sfm_data found in sparse'' []),
       snd (run_steps (stage_steps cfg0 delivery_dense_fails job0) world_processing))"
    by (rule prod_eqI) (simp_all add: dense_fails_stages)
  have h3: "is_Exception (Exn ''RuntimeError'' ''No sfm_data found in sparse'' [])" by simp
  from failed_run_record [OF h1 h2, of "JObj []", THEN conjunct1, THEN mp, OF h3]
  obtain w' d where
    a: "run_reconstruction cfg0 delivery_dense_fails job0 (JObj []) world_processing =
       (Inl (Exn ''RuntimeError'' ''No sfm_data found in sparse'' []), w')"
    and b: "status_files w' job0 = Some (Document d)"
    and c: "dict_get d ''status'' = Some (JStr ''failed'')"
    and e: "dict_get d ''error'' = Some (JStr (exn_str (Exn ''RuntimeError'' ''No sfm_data found in sparse'' [])))"
    by (elim exE conjE) (rule that)
  from e have e': "dict_get d ''error'' = Some (JStr ''No sfm_data found in sparse'')" by simp
  have abce: "\<exists>w' d. run_reconstruction cfg0 delivery_dense_fails job0 (JObj []) world_processing =
       (Inl (Exn ''RuntimeError'' ''No sfm_data found in sparse'' []), w') \<and>
     status_files w' job0 = Some (Document d) \<and>
     dict_get d ''status'' = Some (JStr ''failed'') \<and>
     dict_get d ''error'' = Some (JStr ''No sfm_data found in sparse'')"
    by (rule exI conjI a b c e')+
  have i2: "run_steps (stage_steps cfg0 delivery_dense_interrupted job0) world_processing =
      (Some KeyboardInterrupt,
       snd (run_steps (stage_steps cfg0 delivery_dense_interrupted job0) world_processing))"
    by (rule prod_eqI) (simp_all add: dense_interrupted_stages)
  have i3: "\<not> is_Exception KeyboardInterrupt" by (simp add: KeyboardInterrupt_def)
  note I = failed_run_record [OF h1 i2, of "JObj []", THEN conjunct2, THEN mp, OF i3]
  from h1 dense_fails_stages h3 abce dense_interrupted_stages i3 I show ?thesis by (intro conjI)
qed

text \<open>
  The progress written on failure is not the floor of the stages completed: the dense
  stage fails after progress 50 was written and the record says 0. The \<open>error\<close> field is
  the empty string when the exception has no message. And when the dense stage is
  interrupted, no record with status \<open>failed\<close> is written at all.
\<close>

theorem failed_run_progress_counterexample:
  "fst (run_reconstruction cfg0 delivery_dense_fails job0 (JObj []) world_processing) =
     Inl (Exn ''RuntimeError'' ''No sfm_data found in sparse'' []) \<and>
   map (\<lambda>e. (dict_get (snd e) ''status'', dict_get (snd e) ''progress''))
     (status_log (snd (run_reconstruction cfg0 delivery_dense_fails job0 (JObj []) world_processing))) =
     [(Some (JStr ''processing''), Some (JInt 0)),
      (Some (JStr ''processing''), Some (JInt 20)),
      (Some (JStr ''processing''), Some (JInt 50)),
      (Some (JStr ''failed''), Some (JInt 0))] \<and>
   fst (run_reconstruction cfg0 delivery_assert_fails job0 (JObj []) world_processing) =
     Inl (Exn ''AssertionError'' [] []) \<and>
   dict_get (stored (snd (run_reconstruction cfg0 delivery_assert_fails job0 (JObj []) world_processing)) job0)
     ''error'' = Some (JStr []) \<and>
   fst (run_reconstruction cfg0 delivery_dense_interrupted job0 (JObj []) world_processing) =
     Inl KeyboardInterrupt \<and>
   map (\<lambda>e. (dict_get (snd e) ''status'', dict_get (snd e) ''progress''))
     (status_log (snd (run_reconstruction cfg0 delivery_dense_interrupted job0 (JObj []) world_processing))) =
     [(Some (JStr ''processing''), Some (JInt 0)),
      (Some (JStr ''processing''), Some (JInt 20)),
      (Some (JStr ''processing''), Some (JInt 50))]"
  by (simp add: exec_defs example_defs delivery_dense_fails_def delivery_assert_fails_def
      delivery_dense_interrupted_def KeyboardInterrupt_def stored_def)

lemma run_reconstruction_extends_from:
  assumes rs: "run_steps (stage_steps cfg env j) w = (r, w1)"
  shows "\<exists>xs. status_log (snd (run_reconstruction cfg env j opts w)) = status_log w1 @ xs"
proof (cases r)
  case (Some exc)
  with rs except_Exception_extends [of env j exc w1] show ?thesis
    by (simp add: run_reconstruction_def)
next
  case None
  show ?thesis
  proof (cases "compute_qa_metrics env (artifact_path j) w1")
    case (Inl exc)
    with rs None except_Exception_extends [of env j exc w1] show ?thesis
      by (simp add: run_reconstruction_def)
  next
    case (Inr metrics)
    define kw where "kw = [(''completed_at'', JTime (now w1 + elapse w1 (ticks w1))),
        (''metrics'', JObj metrics)]"
    define w2 where "w2 = snd (utcnow w1)"
    have l2: "status_log w2 = status_log w1" by (simp add: w2_def utcnow_frame)
    obtain r3 w3 where u: "update_job_status j ''completed'' 100 ''Reconstruction complete'' kw w2 = (r3, w3)"
      by (cases "update_job_status j ''completed'' 100 ''Reconstruction complete'' kw w2")
    from update_job_status_extends [of j "''completed''" 100 "''Reconstruction complete''" kw w2] u l2
    obtain ys where ys: "status_log w3 = status_log w1 @ ys" by auto
    have run: "run_reconstruction cfg env j opts w =
      (case (r3, w3) of
        (Some exc, w3) \<Rightarrow> except_Exception env j exc w3
      | (None, w3) \<Rightarrow>
          (Inr [(''job_id'', JStr j), (''status'', JStr ''completed''), (''progress'', JInt 100),
                (''metrics'', JObj metrics)], w3))"
      using u unfolding run_reconstruction_after_stages [OF rs [unfolded None] Inr] kw_def w2_def
      by simp
    show ?thesis
    proof (cases r3)
      case None
      with run ys show ?thesis by simp
    next
      case (Some exc)
      with run ys except_Exception_extends [of env j exc w3] show ?thesis by auto
    qed
  qed
qed

lemma list_all2_tl: "list_all2 P xs ys \<Longrightarrow> list_all2 P (tl xs) (tl ys)"
  by (cases xs; cases ys) simp_all

lemma stage_steps_Cons:
  "stage_steps cfg env j =
     update_job_status j ''processing'' 0 ''Pipeline started'' [] # tl (stage_steps cfg env j)"
  by (simp add: stage_steps_def)

text \<open>
  C1 (as the code has it). The executor does not look at the stored status before it
  works. For every stored record, terminal or not, a delivery first rewrites it with
  status \<open>processing\<close>, progress 0, the message \<open>Pipeline started\<close> and a new
  \<open>updated_at\<close>, keeping every other field, and then runs the stages again. When the
  stages and the metrics return, the status writes that follow the first carry progress
  (10,) 20, 50, 70, 90 with status \<open>processing\<close> and then 100 with status \<open>completed\<close>,
  and the task returns; when a stage raises an exception that \<^verbatim>\<open>except Exception\<close>
  catches, the last write has status \<open>failed\<close> and the task raises.
\<close>

theorem redelivery_restarts:
  assumes "status_files w j = Some (Document d)"
  shows "\<exists>r w' d1 rest.
     run_reconstruction cfg env j opts w = (r, w') \<and>
     status_log w' = status_log w @ (j, d1) # rest \<and>
     dict_get d1 ''status'' = Some (JStr ''processing'') \<and>
     dict_get d1 ''progress'' = Some (JInt 0) \<and>
     dict_get d1 ''message'' = Some (JStr ''Pipeline started'') \<and>
     dict_get d1 ''updated_at'' = Some (JTime (now w + elapse w (ticks w))) \<and>
     (\<forall>k. \<not> reserved_key k \<longrightarrow> dict_get d1 k = dict_get d k) \<and>
     (\<forall>w1 metrics.
        run_steps (stage_steps cfg env j) w = (None, w1) \<and>
        compute_qa_metrics env (artifact_path j) w1 = Inr metrics \<longrightarrow>
        r = Inr [(''job_id'', JStr j), (''status'', JStr ''completed''), (''progress'', JInt 100),
                 (''metrics'', JObj metrics)] \<and>
        map (\<lambda>e. (fst e, dict_get (snd e) ''status'', dict_get (snd e) ''progress'')) rest =
          map (\<lambda>p. (j, Some (JStr ''processing''), Some (JInt p)))
            ((if ENABLE_SAM_SEGMENTATION cfg then [10] else []) @ [20, 50, 70, 90]) @
          [(j, Some (JStr ''completed''), Some (JInt 100))] \<and>
        dict_get (stored w' j) ''status'' = Some (JStr ''completed'')) \<and>
     (\<forall>exc w1.
        run_steps (stage_steps cfg env j) w = (Some exc, w1) \<and> is_Exception exc \<longrightarrow>
        r = Inl exc \<and> rest \<noteq> [] \<and> last rest = (j, stored w' j) \<and>
        dict_get (stored w' j) ''status'' = Some (JStr ''failed''))"
proof -
  have readable: "status_files w j \<noteq> Some Truncated" using assms by simp
  have sd: "stored w j = d" using assms by (simp add: stored_def)
  let ?run = "run_reconstruction cfg env j opts w"
  let ?obs = "\<lambda>e :: job_id \<times> dict. (fst e, dict_get (snd e) ''status'', dict_get (snd e) ''progress'')"
  define tags where "tags = [Some 0, None] @
      (if ENABLE_SAM_SEGMENTATION cfg then [Some 10, None] else [None]) @
      [Some 20, None, Some 50, None, Some 70, None, Some 90, None :: int option]"
  define qs where "qs = (if ENABLE_SAM_SEGMENTATION cfg then [10] else []) @ [20, 50, 70, 90 :: int]"
  have mf: "List.map_filter id tags = 0 # qs"
    by (simp add: tags_def qs_def map_filter_simps)
  have conf: "list_all2 (conforms j) tags (stage_steps cfg env j)"
    unfolding tags_def by (rule stage_steps_conforms)
  show ?thesis
  proof (rule update_job_status_effect [where s = "''processing''" and p = 0
        and m = "''Pipeline started''" and kw = "[]", OF readable bind_kwargs_simps(1)], goal_cases)
    case (1 d1 wa)
    obtain r1 w1 where rest: "run_steps (tl (stage_steps cfg env j)) wa = (r1, w1)"
      by (cases "run_steps (tl (stage_steps cfg env j)) wa")
    from run_steps_extends [OF list_all2_tl [OF conf], of wa] rest
    obtain ys where ys: "status_log w1 = status_log wa @ ys" by auto
    have full: "run_steps (stage_steps cfg env j) w = (r1, w1)"
      by (subst stage_steps_Cons) (simp add: 1(1) rest)
    from run_reconstruction_extends_from [OF full, of opts]
    obtain xs where xs: "status_log (snd ?run) = status_log w1 @ xs"
      by blast
    have a: "?run = (fst ?run, snd ?run)" by simp
    have b: "status_log (snd ?run) = status_log w @ (j, d1) # (ys @ xs)"
      using xs ys 1(3) by simp
    have c: "dict_get d1 ''status'' = Some (JStr ''processing'')"
      using 1(8) [of "''status''"] by simp
    have d: "dict_get d1 ''progress'' = Some (JInt 0)"
      using 1(8) [of "''progress''"] by simp
    have e: "dict_get d1 ''message'' = Some (JStr ''Pipeline started'')"
      using 1(8) [of "''message''"] by simp
    have f: "dict_get d1 ''updated_at'' = Some (JTime (now w + elapse w (ticks w)))"
      using 1(8) [of "''updated_at''"] 1(4) by simp
    have g: "\<forall>k. \<not> reserved_key k \<longrightarrow> dict_get d1 k = dict_get d k"
      using 1(8) sd by (simp add: reserved_key_def)
    have ok: "fst ?run = Inr [(''job_id'', JStr j), (''status'', JStr ''completed''),
                 (''progress'', JInt 100), (''metrics'', JObj metrics)] \<and>
        map ?obs (ys @ xs) = map (\<lambda>p. (j, Some (JStr ''processing''), Some (JInt p))) qs @
          [(j, Some (JStr ''completed''), Some (JInt 100))] \<and>
        dict_get (stored (snd ?run) j) ''status'' = Some (JStr ''completed'')"
      if h: "run_steps (stage_steps cfg env j) w = (None, w1') \<and>
        compute_qa_metrics env (artifact_path j) w1' = Inr metrics" for w1' metrics
    proof -
      from h full have w1': "w1' = w1" and stages: "run_steps (stage_steps cfg env j) w = (None, w1)"
        by simp_all
      from h w1' have m: "compute_qa_metrics env (artifact_path j) w1 = Inr metrics" by simp
      note T = run_steps_trail [OF conf readable stages, unfolded mf]
      from T obtain trail1 where log1: "status_log w1 = status_log w @ trail1"
        and obs1: "map ?obs trail1 = map (\<lambda>p. (j, Some (JStr ''processing''), Some (JInt p))) (0 # qs)"
        by (elim conjE exE) (rule that)
      from log1 ys 1(3) have "trail1 = (j, d1) # ys" by simp
      with obs1 have obs_ys: "map ?obs ys = map (\<lambda>p. (j, Some (JStr ''processing''), Some (JInt p))) qs"
        by simp
      show ?thesis
      proof (rule run_reconstruction_completes [OF readable stages m, of opts], goal_cases)
        case (1 dc wc)
        from 1(1) have f1: "fst ?run = Inr [(''job_id'', JStr j), (''status'', JStr ''completed''),
                 (''progress'', JInt 100), (''metrics'', JObj metrics)]"
          and s1: "snd ?run = wc" by simp_all
        from xs s1 1(3) have x: "xs = [(j, dc)]" by simp
        have o: "map ?obs (ys @ xs) = map (\<lambda>p. (j, Some (JStr ''processing''), Some (JInt p))) qs @
          [(j, Some (JStr ''completed''), Some (JInt 100))]"
          using obs_ys x 1(6) 1(7) by simp
        have "stored wc j = dc" using 1(2) by (simp add: stored_def)
        with 1(6) s1 have st: "dict_get (stored (snd ?run) j) ''status'' = Some (JStr ''completed'')"
          by simp
        from f1 o st show ?case by (intro conjI)
      qed
    qed
    have ko: "fst ?run = Inl exc \<and> ys @ xs \<noteq> [] \<and> last (ys @ xs) = (j, stored (snd ?run) j) \<and>
        dict_get (stored (snd ?run) j) ''status'' = Some (JStr ''failed'')"
      if h: "run_steps (stage_steps cfg env j) w = (Some exc, w1') \<and> is_Exception exc" for exc w1'
    proof -
      from h full have w1': "w1' = w1" and stages: "run_steps (stage_steps cfg env j) w = (Some exc, w1)"
        by simp_all
      from h have exc: "is_Exception exc" by simp
      from run_reconstruction_caught [OF readable stages exc, of opts]
      obtain wf df where r: "?run = (Inl exc, wf)"
        and sf: "status_files wf j = Some (Document df)"
        and lg: "status_log wf = status_log w1 @ [(j, df)]"
        and st: "dict_get df ''status'' = Some (JStr ''failed'')"
        by (elim exE conjE) (rule that)
      from r have f1: "fst ?run = Inl exc" and s1: "snd ?run = wf" by simp_all
      from xs s1 lg have x: "xs = [(j, df)]" by simp
      have sdf: "stored (snd ?run) j = df" using sf s1 by (simp add: stored_def)
      from f1 x sdf st show ?thesis by simp
    qed
    show ?case
    proof (rule exI [of _ "fst ?run"], rule exI [of _ "snd ?run"], rule exI [of _ d1],
        rule exI [of _ "ys @ xs"], intro conjI)
      show "?run = (fst ?run, snd ?run)" by (rule a)
      show "status_log (snd ?run) = status_log w @ (j, d1) # (ys @ xs)" by (rule b)
      show "dict_get d1 ''status'' = Some (JStr ''processing'')" by (rule c)
      show "dict_get d1 ''progress'' = Some (JInt 0)" by (rule d)
      show "dict_get d1 ''message'' = Some (JStr ''Pipeline started'')" by (rule e)
      show "dict_get d1 ''updated_at'' = Some (JTime (now w + elapse w (ticks w)))" by (rule f)
      show "\<forall>k. \<not> reserved_key k \<longrightarrow> dict_get d1 k = dict_get d k" by (rule g)
      show "\<forall>w1 metrics.
        run_steps (stage_steps cfg env j) w = (None, w1) \<and>
        compute_qa_metrics env (artifact_path j) w1 = Inr metrics \<longrightarrow>
        fst ?run = Inr [(''job_id'', JStr j), (''status'', JStr ''completed''), (''progress'', JInt 100),
                 (''metrics'', JObj metrics)] \<and>
        map ?obs (ys @ xs) =
          map (\<lambda>p. (j, Some (JStr ''processing''), Some (JInt p)))
            ((if ENABLE_SAM_SEGMENTATION cfg then [10] else []) @ [20, 50, 70, 90]) @
          [(j, Some (JStr ''completed''), Some (JInt 100))] \<and>
        dict_get (stored (snd ?run) j) ''status'' = Some (JStr ''completed'')"
        unfolding qs_def [symmetric] by (intro allI impI) (rule ok)
      show "\<forall>exc w1.
        run_steps (stage_steps cfg env j) w = (Some exc, w1) \<and> is_Exception exc \<longrightarrow>
        fst ?run = Inl exc \<and> ys @ xs \<noteq> [] \<and> last (ys @ xs) = (j, stored (snd ?run) j) \<and>
        dict_get (stored (snd ?run) j) ''status'' = Some (JStr ''failed'')"
        by (intro allI impI) (rule ko)
    qed
  qed
qed

lemma dense_fails_redelivered:
  "fst (run_steps (stage_steps cfg0 delivery_dense_fails job0) world_completed) =
     Some (Exn ''RuntimeError'' ''No sfm_data found in sparse'' [])"
  by (simp add: exec_defs cfg0_def delivery_ok_def delivery_dense_fails_def world_completed_def
      world0_def record_completed_def job0_def)

theorem redelivery_restarts_witness:
  "status_files world_completed job0 = Some (Document record_completed) \<and>
   dict_get record_completed ''status'' = Some (JStr ''completed'') \<and>
   fst (run_steps (stage_steps cfg0 delivery_ok job0) world_completed) = None \<and>
   (\<exists>r w' d1 rest result.
     run_reconstruction cfg0 delivery_ok job0 (JObj []) world_completed = (r, w') \<and>
     status_log w' = status_log world_completed @ (job0, d1) # rest \<and>
     dict_get d1 ''status'' = Some (JStr ''processing'') \<and>
     dict_get d1 ''progress'' = Some (JInt 0) \<and>
     r = Inr result \<and>
     map (\<lambda>e. (dict_get (snd e) ''status'', dict_get (snd e) ''progress'')) rest =
       [(Some (JStr ''processing''), Some (JInt 20)),
        (Some (JStr ''processing''), Some (JInt 50)),
        (Some (JStr ''processing''), Some (JInt 70)),
        (Some (JStr ''processing''), Some (JInt 90)),
        (Some (JStr ''completed''), Some (JInt 100))]) \<and>
   fst (run_steps (stage_steps cfg0 delivery_dense_fails job0) world_completed) =
     Some (Exn ''RuntimeError'' ''No sfm_data found in sparse'' []) \<and>
   (\<exists>w'. run_reconstruction cfg0 delivery_dense_fails job0 (JObj []) world_completed =
       (Inl (Exn ''RuntimeError'' ''No sfm_data found in sparse'' []), w') \<and>
     dict_get (stored w' job0) ''status'' = Some (JStr ''failed''))"
proof -
  let ?w1 = "snd (run_steps (stage_steps cfg0 delivery_ok job0) world_completed)"
  have h: "status_files world_completed job0 = Some (Document record_completed)"
    by (simp add: world_completed_def world0_def)
  have st: "dict_get record_completed ''status'' = Some (JStr ''completed'')"
    by (simp add: record_completed_def dict_get_def)
  have s0: "fst (run_steps (stage_steps cfg0 delivery_ok job0) world_completed) = None"
  proof (rule stage_steps_succeed)
    show "status_files world_completed job0 \<noteq> Some Truncated" using h by simp
    show "(\<exists>b. mesh_export_glb delivery_ok = Written b) \<or>
         (\<exists>e p. mesh_export_glb delivery_ok = ExportFailed e p \<and> is_Exception e) \<and>
         (\<exists>b bs. mesh_export_gltf delivery_ok = GltfWritten b bs)"
      by (simp add: delivery_ok_def)
  qed (simp_all add: delivery_ok_def)
  then have h2: "run_steps (stage_steps cfg0 delivery_ok job0) world_completed = (None, ?w1)"
    by (intro prod_eqI) simp_all
  have "artifacts ?w1 (artifact_path job0) = None \<or>
        (\<forall>e. metrics_exception (trimesh_load delivery_ok) = Some e \<longrightarrow> is_Exception e)"
    by (simp add: delivery_ok_def metrics_exception_def analyze_def)
  from compute_qa_metrics_returns [OF this]
  obtain metrics where h3: "compute_qa_metrics delivery_ok (artifact_path job0) ?w1 = Inr metrics"
    by blast
  from redelivery_restarts [OF h, of cfg0 delivery_ok "JObj []"]
  obtain r w' d1 rest where
    a: "run_reconstruction cfg0 delivery_ok job0 (JObj []) world_completed = (r, w')"
    and b: "status_log w' = status_log world_completed @ (job0, d1) # rest"
    and c: "dict_get d1 ''status'' = Some (JStr ''processing'')"
    and d: "dict_get d1 ''progress'' = Some (JInt 0)"
    and br: "\<forall>w1 metrics.
        run_steps (stage_steps cfg0 delivery_ok job0) world_completed = (None, w1) \<and>
        compute_qa_metrics delivery_ok (artifact_path job0) w1 = Inr metrics \<longrightarrow>
        r = Inr [(''job_id'', JStr job0), (''status'', JStr ''completed''), (''progress'', JInt 100),
                 (''metrics'', JObj metrics)] \<and>
        map (\<lambda>e. (fst e, dict_get (snd e) ''status'', dict_get (snd e) ''progress'')) rest =
          map (\<lambda>p. (job0, Some (JStr ''processing''), Some (JInt p)))
            ((if ENABLE_SAM_SEGMENTATION cfg0 then [10] else []) @ [20, 50, 70, 90]) @
          [(job0, Some (JStr ''completed''), Some (JInt 100))] \<and>
        dict_get (stored w' job0) ''status'' = Some (JStr ''completed'')"
    by (elim exE conjE) (rule that)
  note B = br [THEN spec, THEN spec, THEN mp, OF conjI [OF h2 h3]]
  from B have e: "r = Inr [(''job_id'', JStr job0), (''status'', JStr ''completed''),
      (''progress'', JInt 100), (''metrics'', JObj metrics)]" by (rule conjunct1)
  from B have "map (\<lambda>e. (fst e, dict_get (snd e) ''status'', dict_get (snd e) ''progress'')) rest =
          map (\<lambda>p. (job0, Some (JStr ''processing''), Some (JInt p)))
            ((if ENABLE_SAM_SEGMENTATION cfg0 then [10] else []) @ [20, 50, 70, 90]) @
          [(job0, Some (JStr ''completed''), Some (JInt 100))]"
    by (elim conjE)
  from arg_cong [OF this, of "map snd"]
  have f: "map (\<lambda>e. (dict_get (snd e) ''status'', dict_get (snd e) ''progress'')) rest =
       [(Some (JStr ''processing''), Some (JInt 20)),
        (Some (JStr ''processing''), Some (JInt 50)),
        (Some (JStr ''processing''), Some (JInt 70)),
        (Some (JStr ''processing''), Some (JInt 90)),
        (Some (JStr ''completed''), Some (JInt 100))]"
    by (simp add: o_def cfg0_def)
  have ok: "\<exists>r w' d1 rest result.
     run_reconstruction cfg0 delivery_ok job0 (JObj []) world_completed = (r, w') \<and>
     status_log w' = status_log world_completed @ (job0, d1) # rest \<and>
     dict_get d1 ''status'' = Some (JStr ''processing'') \<and>
     dict_get d1 ''progress'' = Some (JInt 0) \<and>
     r = Inr result \<and>
     map (\<lambda>e. (dict_get (snd e) ''status'', dict_get (snd e) ''progress'')) rest =
       [(Some (JStr ''processing''), Some (JInt 20)),
        (Some (JStr ''processing''), Some (JInt 50)),
        (Some (JStr ''processing''), Some (JInt 70)),
        (Some (JStr ''processing''), Some (JInt 90)),
        (Some (JStr ''completed''), Some (JInt 100))]"
    by (rule exI conjI a b c d e f)+
  let ?exc = "Exn ''RuntimeError'' ''No sfm_data found in sparse'' []"
  have k2: "run_steps (stage_steps cfg0 delivery_dense_fails job0) world_completed =
      (Some ?exc, snd (run_steps (stage_steps cfg0 delivery_dense_fails job0) world_completed))"
    by (rule prod_eqI) (simp_all add: dense_fails_redelivered)
  have k3: "is_Exception ?exc" by simp
  from redelivery_restarts [OF h, of cfg0 delivery_dense_fails "JObj []"]
  obtain r2 w2 rest2 where
    a2: "run_reconstruction cfg0 delivery_dense_fails job0 (JObj []) world_completed = (r2, w2)"
    and br2: "\<forall>exc w1.
        run_steps (stage_steps cfg0 delivery_dense_fails job0) world_completed = (Some exc, w1) \<and>
        is_Exception exc \<longrightarrow>
        r2 = Inl exc \<and> rest2 \<noteq> [] \<and> last rest2 = (job0, stored w2 job0) \<and>
        dict_get (stored w2 job0) ''status'' = Some (JStr ''failed'')"
    by (elim exE conjE) (rule that)
  note B2 = br2 [THEN spec, THEN spec, THEN mp, OF conjI [OF k2 k3]]
  from B2 have r2: "r2 = Inl ?exc" by (rule conjunct1)
  from B2 have st2: "dict_get (stored w2 job0) ''status'' = Some (JStr ''failed'')" by (elim conjE)
  have ko: "\<exists>w'. run_reconstruction cfg0 delivery_dense_fails job0 (JObj []) world_completed =
       (Inl ?exc, w') \<and> dict_get (stored w' job0) ''status'' = Some (JStr ''failed'')"
    using a2 r2 st2 by blast
  from h st s0 ok dense_fails_redelivered ko show ?thesis by (intro conjI)
qed

text \<open>
  A completed job that is delivered again, in a delivery whose dense stage fails: three
  status writes with status \<open>processing\<close> and then one with status \<open>failed\<close>.
\<close>

theorem redelivery_noop_counterexample:
  "status_files world_completed job0 = Some (Document record_completed) \<and>
   dict_get record_completed ''status'' = Some (JStr ''completed'') \<and>
   map (\<lambda>e. (dict_get (snd e) ''status'', dict_get (snd e) ''progress''))
     (status_log (snd (run_reconstruction cfg0 delivery_dense_fails job0 (JObj []) world_completed))) =
     [(Some (JStr ''processing''), Some (JInt 0)),
      (Some (JStr ''processing''), Some (JInt 20)),
      (Some (JStr ''processing''), Some (JInt 50)),
      (Some (JStr ''failed''), Some (JInt 0))] \<and>
   dict_get (stored (snd (run_reconstruction cfg0 delivery_dense_fails job0 (JObj []) world_completed)) job0)
     ''status'' = Some (JStr ''failed'') \<and>
   stored (snd (run_reconstruction cfg0 delivery_dense_fails job0 (JObj []) world_completed)) job0
     \<noteq> record_completed"
  by (simp add: exec_defs cfg0_def delivery_ok_def delivery_dense_fails_def world_completed_def
      world0_def record_completed_def job0_def stored_def artifact_path_def default_metrics_def)





lemma str_replace_length_ge:
  "length old \<le> length new \<Longrightarrow> length s \<le> length (str_replace old new s)"
proof (induction old new s rule: str_replace.induct)
  case (1 old new)
  then show ?case by simp
next
  case (2 old new c s)
  show ?case
  proof (cases "old \<noteq> [] \<and> take (length old) (c # s) = old")
    case True
    then have "length (take (length old) (c # s)) = length old" by simp
    then have "length old \<le> length (c # s)"
      unfolding length_take by arith
    moreover have "length (drop (length old - 1) s) \<le> length (str_replace old new (drop (length old - 1) s))"
      using 2 True by simp
    moreover from True have "1 \<le> length old" by (cases old) auto
    ultimately show ?thesis using True 2(3) by simp
  next
    case False
    with 2 show ?thesis by auto
  qed
qed

lemma str_replace_length_gt:
  assumes "old \<noteq> []" and "length old < length new"
  shows "length (xs @ old @ ys) < length (str_replace old new (xs @ old @ ys))"
proof (induction xs)
  case Nil
  from assms(1) obtain c o' where old: "old = c # o'" by (cases old) auto
  have "str_replace old new (old @ ys) = new @ str_replace old new ys"
    by (simp add: old)
  moreover have "length ys \<le> length (str_replace old new ys)"
    using assms(2) by (simp add: str_replace_length_ge)
  ultimately show ?case using assms(2) by simp
next
  case (Cons x xs)
  define t where "t = xs @ old @ ys"
  have lt: "length old \<le> length t" by (simp add: t_def)
  have IH: "length t < length (str_replace old new t)"
    using Cons by (simp add: t_def)
  have "length (x # t) < length (str_replace old new (x # t))"
  proof (cases "take (length old) (x # t) = old")
    case True
    have ge: "length (drop (length old - 1) t) \<le>
          length (str_replace old new (drop (length old - 1) t))"
      by (rule str_replace_length_ge) (use assms(2) in simp)
    have pos: "1 \<le> length old" using assms(1) by (cases old) auto
    have "str_replace old new (x # t) = new @ str_replace old new (drop (length old - 1) t)"
      using True assms(1) by simp
    then have "length (str_replace old new (x # t)) =
        length new + length (str_replace old new (drop (length old - 1) t))"
      by simp
    with ge lt assms(2) pos show ?thesis by simp
  next
    case False
    with IH show ?thesis by simp
  qed
  then show ?case by (simp add: t_def)
qed

lemma gltf_path_differs: "str_replace ''.glb'' ''.gltf'' (artifact_path j) \<noteq> artifact_path j"
proof -
  have "length (j @ ''.glb'' @ []) < length (str_replace ''.glb'' ''.gltf'' (j @ ''.glb'' @ []))"
    by (rule str_replace_length_gt) simp_all
  then show ?thesis by (auto simp: artifact_path_def)
qed

lemma buffer_name_not_artifact: "buffer_name i \<noteq> artifact_path j"
proof
  assume "buffer_name i = artifact_path j"
  then have "last (buffer_name i) = last (artifact_path j)" by simp
  then show False by (simp add: buffer_name_def artifact_path_def)
qed

lemma fold_buffers_other:
  "p \<notin> buffer_name ` fst ` set xs \<Longrightarrow>
   fold (\<lambda>(i, b) files. files(buffer_name i \<mapsto> b)) xs files p = files p"
  by (induction xs arbitrary: files) auto

lemma write_buffers_other:
  "(\<And>i. buffer_name i \<noteq> p) \<Longrightarrow> artifacts (write_buffers bs w) p = artifacts w p"
  by (simp add: write_buffers_def) (rule fold_buffers_other, auto)

lemma export_glb_fallback:
  assumes "prepare_mesh env = Done" and "mesh_export_glb env = ExportFailed e partial"
    and "is_Exception e" and "mesh_export_gltf env = GltfWritten b buffers"
  shows "export_glb env p w =
     (None, (write_buffers buffers (leave_at p partial w))
        \<lparr>artifacts := (artifacts (write_buffers buffers (leave_at p partial w)))
           (str_replace ''.glb'' ''.gltf'' p \<mapsto> b)\<rparr>)"
  using assms by (simp add: export_glb_def Let_def)

lemma update_job_status_artifacts:
  "artifacts (snd (update_job_status j s p m kw w)) = artifacts w"
  by (auto simp: update_job_status_def json_load_def utcnow_def json_dump_def open_w_def Let_def
      split: option.splits file_content.splits)

lemma stage_steps_snoc:
  "stage_steps cfg env j = butlast (stage_steps cfg env j) @ [export_glb env (artifact_path j)]"
  by (simp add: stage_steps_def)

lemma pre_export_artifacts:
  assumes "s \<in> set (butlast (stage_steps cfg env j))"
  shows "artifacts (snd (s w)) = artifacts w"
proof -
  from assms consider m p where "s = update_job_status j ''processing'' p m []"
    | "s = make_stage_dirs j" | r where "s = adapter r" | "s = create_white_masks env j"
    by (auto simp: stage_steps_def split: if_splits)
  then show ?thesis
  proof cases
    case 1
    then show ?thesis by (simp add: update_job_status_artifacts)
  next
    case 2
    then show ?thesis by (simp add: make_stage_dirs_def makedirs_frame)
  next
    case 3
    then show ?thesis by (simp add: adapter_def split: outcome.splits)
  next
    case 4
    then show ?thesis by (simp add: create_white_masks_def white_masks_frame)
  qed
qed

lemma stages_before_export:
  assumes "run_steps (stage_steps cfg env j) w = (None, w1)"
  obtains wp where "artifacts wp = artifacts w" and "export_glb env (artifact_path j) wp = (None, w1)"
proof -
  obtain r wp where pre: "run_steps (butlast (stage_steps cfg env j)) w = (r, wp)"
    by (cases "run_steps (butlast (stage_steps cfg env j)) w")
  have "run_steps (butlast (stage_steps cfg env j) @ [export_glb env (artifact_path j)]) w = (None, w1)"
    using assms stage_steps_snoc [of cfg env j] by simp
  with pre have r: "r = None" and ex: "export_glb env (artifact_path j) wp = (None, w1)"
    by (auto simp: run_steps_append split: option.splits prod.splits)
  have "artifacts (snd (run_steps (butlast (stage_steps cfg env j)) w)) = artifacts w"
    by (rule run_steps_invariant [where P = "\<lambda>w'. artifacts w' = artifacts w"])
       (simp_all add: pre_export_artifacts)
  with pre have "artifacts wp = artifacts w" by simp
  with ex that show thesis by blast
qed

lemma get_artifact_completed:
  assumes "uuid_ok lib j" and "status_files w j = Some (Document d)"
    and "dict_get d ''status'' = Some (JStr ''completed'')"
  shows "get_artifact lib j w =
     (if artifacts w (artifact_path j) = None
      then Inl (HTTPException 404 [Lit ''Artifact file not found''])
      else Inr \<lparr>path = artifact_path j, media_type = ''model/gltf-binary'',
                download_name = ''atlas-'' @ j @ ''.glb''\<rparr>)"
proof -
  from assms(3) have "d \<noteq> []" by (auto simp: dict_get_def)
  with assms show ?thesis
    by (simp add: get_artifact_def get_job_status_helper_def json_load_def)
qed

lemma gltf_fallback_run:
  assumes "uuid_ok lib j"
    and "status_files w j \<noteq> Some Truncated"
    and "run_sam_segmentation env = Done" and "\<And>img. pil_white_mask env img = Done"
    and "run_openmvg env = Done" and "run_openmvs_pipeline env = Done"
    and "run_postprocessing env = Done" and "prepare_mesh env = Done"
    and "mesh_export_glb env = ExportFailed e partial" and "is_Exception e"
    and "mesh_export_gltf env = GltfWritten b buffers"
    and "partial = None \<and> artifacts w (artifact_path j) = None \<or>
         (\<forall>e. metrics_exception (trimesh_load env) = Some e \<longrightarrow> is_Exception e)"
  shows "\<exists>result w'.
     run_reconstruction cfg env j opts w = (Inr result, w') \<and>
     dict_get (stored w' j) ''status'' = Some (JStr ''completed'') \<and>
     artifacts w' (str_replace ''.glb'' ''.gltf'' (artifact_path j)) = Some b \<and>
     artifacts w' (artifact_path j) =
       (case partial of None \<Rightarrow> artifacts w (artifact_path j) | Some left \<Rightarrow> Some left) \<and>
     get_artifact lib j w' =
       (if partial = None \<and> artifacts w (artifact_path j) = None
        then Inl (HTTPException 404 [Lit ''Artifact file not found''])
        else Inr \<lparr>path = artifact_path j, media_type = ''model/gltf-binary'',
                  download_name = ''atlas-'' @ j @ ''.glb''\<rparr>)"
proof -
  let ?ap = "artifact_path j"
  let ?gltf = "str_replace ''.glb'' ''.gltf'' (artifact_path j)"
  let ?left = "case partial of None \<Rightarrow> artifacts w ?ap | Some left \<Rightarrow> Some left"
  have "fst (run_steps (stage_steps cfg env j) w) = None"
    by (rule stage_steps_succeed [OF assms(2,3,4,5,6,7,8)]) (simp add: assms(9,10,11))
  then obtain w1 where stages: "run_steps (stage_steps cfg env j) w = (None, w1)"
    by (metis prod.collapse)
  from stages_before_export [OF stages]
  obtain wp where ap: "artifacts wp = artifacts w"
    and ex: "export_glb env ?ap wp = (None, w1)" by blast
  from ex export_glb_fallback [OF assms(8,9,10,11), of ?ap wp]
  have w1: "w1 = (write_buffers buffers (leave_at ?ap partial wp))
        \<lparr>artifacts := (artifacts (write_buffers buffers (leave_at ?ap partial wp)))(?gltf \<mapsto> b)\<rparr>"
    by simp
  have "artifacts w1 ?ap = artifacts (leave_at ?ap partial wp) ?ap"
    using gltf_path_differs [of j] by (simp add: w1 write_buffers_other buffer_name_not_artifact)
  then have a1: "artifacts w1 ?ap = ?left"
    using ap by (simp add: leave_at_def split: option.splits)
  have a2: "artifacts w1 ?gltf = Some b" by (simp add: w1)
  have none: "?left = None \<longleftrightarrow> partial = None \<and> artifacts w ?ap = None"
    by (simp split: option.splits)
  have "artifacts w1 ?ap = None \<or>
        (\<forall>e. metrics_exception (trimesh_load env) = Some e \<longrightarrow> is_Exception e)"
    using assms(12) a1 none by auto
  from compute_qa_metrics_returns [OF this]
  obtain metrics where m: "compute_qa_metrics env ?ap w1 = Inr metrics" by blast
  show ?thesis
  proof (rule run_reconstruction_completes [OF assms(2) stages m, of opts], goal_cases)
    case (1 d w')
    have sf: "status_files w' j = Some (Document d)" using 1(2) by simp
    then have sd: "stored w' j = d" by (simp add: stored_def)
    have st: "dict_get (stored w' j) ''status'' = Some (JStr ''completed'')"
      using 1(6) sd by simp
    have b1: "artifacts w' ?ap = ?left" using 1(4) a1 by simp
    have b2: "artifacts w' ?gltf = Some b" using 1(4) a2 by simp
    have ga: "get_artifact lib j w' =
       (if partial = None \<and> artifacts w ?ap = None
        then Inl (HTTPException 404 [Lit ''Artifact file not found''])
        else Inr \<lparr>path = ?ap, media_type = ''model/gltf-binary'',
                  download_name = ''atlas-'' @ j @ ''.glb''\<rparr>)"
      unfolding get_artifact_completed [OF assms(1) sf 1(6)] b1 none by simp
    show ?case by (rule exI conjI 1(1) st b2 b1 ga)+
  qed
qed

text \<open>
  C7 (as the code has it). When the GLB export raises an exception that
  \<^verbatim>\<open>except Exception\<close> catches and the GLTF export that follows succeeds, \<^verbatim>\<open>export_glb\<close>
  returns normally after writing the buffers and the GLTF document, at a path that is not
  the artifact path; what the failed export left at the artifact path stays. If the other
  stages return too, the run ends with status \<open>completed\<close>. The artifact fetch then
  answers 404 when there is no file at \<^verbatim>\<open>artifacts/<job_id>.glb\<close>, that is when none was
  there before the run and the failed export left none; otherwise (and when the metrics
  computation, which then reads that file, raises nothing that leaves the task) it
  returns the file that is there.
\<close>

theorem gltf_fallback_completes_without_artifact:
  assumes "uuid_ok lib j"
    and "status_files w j \<noteq> Some Truncated"
    and "run_sam_segmentation env = Done" and "\<And>img. pil_white_mask env img = Done"
    and "run_openmvg env = Done" and "run_openmvs_pipeline env = Done"
    and "run_postprocessing env = Done" and "prepare_mesh env = Done"
    and "mesh_export_glb env = ExportFailed e partial" and "is_Exception e"
    and "mesh_export_gltf env = GltfWritten b buffers"
  shows "export_glb env (artifact_path j) w0 =
           (None, (write_buffers buffers (leave_at (artifact_path j) partial w0))
              \<lparr>artifacts := (artifacts (write_buffers buffers (leave_at (artifact_path j) partial w0)))
                 (str_replace ''.glb'' ''.gltf'' (artifact_path j) \<mapsto> b)\<rparr>) \<and>
         str_replace ''.glb'' ''.gltf'' (artifact_path j) \<noteq> artifact_path j \<and>
         (partial = None \<and> artifacts w (artifact_path j) = None \<longrightarrow>
            (\<exists>result w'.
               run_reconstruction cfg env j opts w = (Inr result, w') \<and>
               dict_get (stored w' j) ''status'' = Some (JStr ''completed'') \<and>
               artifacts w' (artifact_path j) = None \<and>
               artifacts w' (str_replace ''.glb'' ''.gltf'' (artifact_path j)) = Some b \<and>
               get_artifact lib j w' = Inl (HTTPException 404 [Lit ''Artifact file not found'']))) \<and>
         ((partial \<noteq> None \<or> artifacts w (artifact_path j) \<noteq> None) \<and>
          (\<forall>e. metrics_exception (trimesh_load env) = Some e \<longrightarrow> is_Exception e) \<longrightarrow>
            (\<exists>result w'.
               run_reconstruction cfg env j opts w = (Inr result, w') \<and>
               dict_get (stored w' j) ''status'' = Some (JStr ''completed'') \<and>
               artifacts w' (artifact_path j) =
                 (case partial of None \<Rightarrow> artifacts w (artifact_path j) | Some left \<Rightarrow> Some left) \<and>
               artifacts w' (artifact_path j) \<noteq> None \<and>
               get_artifact lib j w' =
                 Inr \<lparr>path = artifact_path j, media_type = ''model/gltf-binary'',
                      download_name = ''atlas-'' @ j @ ''.glb''\<rparr>))"
proof (intro conjI impI)
  show "export_glb env (artifact_path j) w0 =
           (None, (write_buffers buffers (leave_at (artifact_path j) partial w0))
              \<lparr>artifacts := (artifacts (write_buffers buffers (leave_at (artifact_path j) partial w0)))
                 (str_replace ''.glb'' ''.gltf'' (artifact_path j) \<mapsto> b)\<rparr>)"
    by (rule export_glb_fallback [OF assms(8,9,10,11)])
  show "str_replace ''.glb'' ''.gltf'' (artifact_path j) \<noteq> artifact_path j"
    by (rule gltf_path_differs)
next
  assume h: "partial = None \<and> artifacts w (artifact_path j) = None"
  then have "partial = None \<and> artifacts w (artifact_path j) = None \<or>
         (\<forall>e. metrics_exception (trimesh_load env) = Some e \<longrightarrow> is_Exception e)" by simp
  from gltf_fallback_run [OF assms this, of cfg opts]
  obtain result w' where
    a: "run_reconstruction cfg env j opts w = (Inr result, w')"
    and b: "dict_get (stored w' j) ''status'' = Some (JStr ''completed'')"
    and c: "artifacts w' (str_replace ''.glb'' ''.gltf'' (artifact_path j)) = Some b"
    and d: "artifacts w' (artifact_path j) =
       (case partial of None \<Rightarrow> artifacts w (artifact_path j) | Some left \<Rightarrow> Some left)"
    and e: "get_artifact lib j w' =
       (if partial = None \<and> artifacts w (artifact_path j) = None
        then Inl (HTTPException 404 [Lit ''Artifact file not found''])
        else Inr \<lparr>path = artifact_path j, media_type = ''model/gltf-binary'',
                  download_name = ''atlas-'' @ j @ ''.glb''\<rparr>)"
    by (elim exE conjE) (rule that)
  from d h have d': "artifacts w' (artifact_path j) = None" by simp
  from e h have e': "get_artifact lib j w' = Inl (HTTPException 404 [Lit ''Artifact file not found''])"
    by simp
  show "\<exists>result w'.
               run_reconstruction cfg env j opts w = (Inr result, w') \<and>
               dict_get (stored w' j) ''status'' = Some (JStr ''completed'') \<and>
               artifacts w' (artifact_path j) = None \<and>
               artifacts w' (str_replace ''.glb'' ''.gltf'' (artifact_path j)) = Some b \<and>
               get_artifact lib j w' = Inl (HTTPException 404 [Lit ''Artifact file not found''])"
    by (rule exI conjI a b d' c e')+
next
  assume h: "(partial \<noteq> None \<or> artifacts w (artifact_path j) \<noteq> None) \<and>
          (\<forall>e. metrics_exception (trimesh_load env) = Some e \<longrightarrow> is_Exception e)"
  then have "partial = None \<and> artifacts w (artifact_path j) = None \<or>
         (\<forall>e. metrics_exception (trimesh_load env) = Some e \<longrightarrow> is_Exception e)" by simp
  from gltf_fallback_run [OF assms this, of cfg opts]
  obtain result w' where
    a: "run_reconstruction cfg env j opts w = (Inr result, w')"
    and b: "dict_get (stored w' j) ''status'' = Some (JStr ''completed'')"
    and d: "artifacts w' (artifact_path j) =
       (case partial of None \<Rightarrow> artifacts w (artifact_path j) | Some left \<Rightarrow> Some left)"
    and e: "get_artifact lib j w' =
       (if partial = None \<and> artifacts w (artifact_path j) = None
        then Inl (HTTPException 404 [Lit ''Artifact file not found''])
        else Inr \<lparr>path = artifact_path j, media_type = ''model/gltf-binary'',
                  download_name = ''atlas-'' @ j @ ''.glb''\<rparr>)"
    by (elim exE conjE) (rule that)
  from d h have d': "artifacts w' (artifact_path j) \<noteq> None" by (auto split: option.splits)
  from e h have e': "get_artifact lib j w' =
                 Inr \<lparr>path = artifact_path j, media_type = ''model/gltf-binary'',
                      download_name = ''atlas-'' @ j @ ''.glb''\<rparr>"
    by auto
  show "\<exists>result w'.
               run_reconstruction cfg env j opts w = (Inr result, w') \<and>
               dict_get (stored w' j) ''status'' = Some (JStr ''completed'') \<and>
               artifacts w' (artifact_path j) =
                 (case partial of None \<Rightarrow> artifacts w (artifact_path j) | Some left \<Rightarrow> Some left) \<and>
               artifacts w' (artifact_path j) \<noteq> None \<and>
               get_artifact lib j w' =
                 Inr \<lparr>path = artifact_path j, media_type = ''model/gltf-binary'',
                      download_name = ''atlas-'' @ j @ ''.glb''\<rparr>"
    by (rule exI conjI a b d d' e')+
qed

lemma delivery_glb_fails_facts:
  "run_sam_segmentation delivery_glb_fails = Done"
  "\<And>img. pil_white_mask delivery_glb_fails img = Done"
  "run_openmvg delivery_glb_fails = Done"
  "run_openmvs_pipeline delivery_glb_fails = Done"
  "run_postprocessing delivery_glb_fails = Done"
  "prepare_mesh delivery_glb_fails = Done"
  "mesh_export_glb delivery_glb_fails = ExportFailed (Exn ''ValueError'' ''cannot export'' []) None"
  "is_Exception (Exn ''ValueError'' ''cannot export'' [])"
  "mesh_export_gltf delivery_glb_fails = GltfWritten ''{}'' [''bin'']"
  by (simp_all add: delivery_glb_fails_def delivery_ok_def)

lemma delivery_glb_partial_facts:
  "run_sam_segmentation delivery_glb_partial = Done"
  "\<And>img. pil_white_mask delivery_glb_partial img = Done"
  "run_openmvg delivery_glb_partial = Done"
  "run_openmvs_pipeline delivery_glb_partial = Done"
  "run_postprocessing delivery_glb_partial = Done"
  "prepare_mesh delivery_glb_partial = Done"
  "mesh_export_glb delivery_glb_partial = ExportFailed (Exn ''ValueError'' ''cannot export'' []) (Some [])"
  "is_Exception (Exn ''ValueError'' ''cannot export'' [])"
  "mesh_export_gltf delivery_glb_partial = GltfWritten ''{}'' [''bin'']"
  by (simp_all add: delivery_glb_partial_def delivery_ok_def)

theorem gltf_fallback_completes_without_artifact_witness:
  "uuid_ok lib0 job0 \<and>
   status_files world_processing job0 \<noteq> Some Truncated \<and>
   artifacts world_processing (artifact_path job0) = None \<and>
   mesh_export_glb delivery_glb_fails = ExportFailed (Exn ''ValueError'' ''cannot export'' []) None \<and>
   mesh_export_gltf delivery_glb_fails = GltfWritten ''{}'' [''bin''] \<and>
   (\<exists>result w'.
      run_reconstruction cfg0 delivery_glb_fails job0 (JObj []) world_processing = (Inr result, w') \<and>
      dict_get (stored w' job0) ''status'' = Some (JStr ''completed'') \<and>
      artifacts w' (artifact_path job0) = None \<and>
      get_artifact lib0 job0 w' = Inl (HTTPException 404 [Lit ''Artifact file not found''])) \<and>
   status_files world_completed job0 \<noteq> Some Truncated \<and>
   artifacts world_completed (artifact_path job0) \<noteq> None \<and>
   metrics_exception (trimesh_load delivery_glb_fails) = None \<and>
   (\<exists>result w'.
      run_reconstruction cfg0 delivery_glb_fails job0 (JObj []) world_completed = (Inr result, w') \<and>
      dict_get (stored w' job0) ''status'' = Some (JStr ''completed'') \<and>
      artifacts w' (artifact_path job0) \<noteq> None \<and>
      get_artifact lib0 job0 w' =
        Inr \<lparr>path = artifact_path job0, media_type = ''model/gltf-binary'',
             download_name = ''atlas-'' @ job0 @ ''.glb''\<rparr>)"
proof -
  have h1: "uuid_ok lib0 job0" by (simp add: lib0_def job0_def)
  have h2: "status_files world_processing job0 \<noteq> Some Truncated"
    by (simp add: world_processing_def world0_def)
  have h3: "artifacts world_processing (artifact_path job0) = None"
    by (simp add: world_processing_def world0_def)
  note T = gltf_fallback_completes_without_artifact
    [OF h1 h2 delivery_glb_fails_facts, where cfg = cfg0 and opts = "JObj []" and ?w0.0 = world0]
  from T [THEN conjunct2, THEN conjunct2, THEN conjunct1, THEN mp, OF conjI [OF refl h3]]
  obtain result w' where
    a: "run_reconstruction cfg0 delivery_glb_fails job0 (JObj []) world_processing = (Inr result, w')"
    and b: "dict_get (stored w' job0) ''status'' = Some (JStr ''completed'')"
    and c: "artifacts w' (artifact_path job0) = None"
    and d: "get_artifact lib0 job0 w' = Inl (HTTPException 404 [Lit ''Artifact file not found''])"
    by (elim exE conjE) (rule that)
  have first: "\<exists>result w'.
      run_reconstruction cfg0 delivery_glb_fails job0 (JObj []) world_processing = (Inr result, w') \<and>
      dict_get (stored w' job0) ''status'' = Some (JStr ''completed'') \<and>
      artifacts w' (artifact_path job0) = None \<and>
      get_artifact lib0 job0 w' = Inl (HTTPException 404 [Lit ''Artifact file not found''])"
    by (rule exI conjI a b c d)+
  have g2: "status_files world_completed job0 \<noteq> Some Truncated"
    by (simp add: world_completed_def world0_def)
  have g3: "artifacts world_completed (artifact_path job0) \<noteq> None"
    by (simp add: world_completed_def world0_def)
  have g4: "\<forall>e. metrics_exception (trimesh_load delivery_glb_fails) = Some e \<longrightarrow> is_Exception e"
    by (simp add: delivery_glb_fails_def delivery_ok_def metrics_exception_def analyze_def)
  note U = gltf_fallback_completes_without_artifact
    [OF h1 g2 delivery_glb_fails_facts, where cfg = cfg0 and opts = "JObj []" and ?w0.0 = world0]
  from U [THEN conjunct2, THEN conjunct2, THEN conjunct2, THEN mp, OF conjI [OF disjI2 [OF g3] g4]]
  obtain result2 w2 where
    a2: "run_reconstruction cfg0 delivery_glb_fails job0 (JObj []) world_completed = (Inr result2, w2)"
    and b2: "dict_get (stored w2 job0) ''status'' = Some (JStr ''completed'')"
    and c2: "artifacts w2 (artifact_path job0) \<noteq> None"
    and d2: "get_artifact lib0 job0 w2 =
        Inr \<lparr>path = artifact_path job0, media_type = ''model/gltf-binary'',
             download_name = ''atlas-'' @ job0 @ ''.glb''\<rparr>"
    by (elim exE conjE) (rule that)
  have second: "\<exists>result w'.
      run_reconstruction cfg0 delivery_glb_fails job0 (JObj []) world_completed = (Inr result, w') \<and>
      dict_get (stored w' job0) ''status'' = Some (JStr ''completed'') \<and>
      artifacts w' (artifact_path job0) \<noteq> None \<and>
      get_artifact lib0 job0 w' =
        Inr \<lparr>path = artifact_path job0, media_type = ''model/gltf-binary'',
             download_name = ''atlas-'' @ job0 @ ''.glb''\<rparr>"
    by (rule exI conjI a2 b2 c2 d2)+
  have g5: "metrics_exception (trimesh_load delivery_glb_fails) = None"
    by (simp add: delivery_glb_fails_def delivery_ok_def metrics_exception_def analyze_def)
  from h1 h2 h3 delivery_glb_fails_facts(7) delivery_glb_fails_facts(9) first g2 g3 g5 second
  show ?thesis by (intro conjI)
qed

text \<open>
  The fallback on a job that has an artifact from an earlier run, and the fallback after a
  GLB export that left an empty file: the job is \<open>completed\<close>, a file is at the artifact
  path, and the artifact fetch returns it instead of answering 404.
\<close>

theorem gltf_fallback_counterexample:
  "dict_get (stored (snd (run_reconstruction cfg0 delivery_glb_fails job0 (JObj []) world_completed)) job0)
     ''status'' = Some (JStr ''completed'') \<and>
   artifacts (snd (run_reconstruction cfg0 delivery_glb_fails job0 (JObj []) world_completed))
     (artifact_path job0) = Some ''glTF'' \<and>
   get_artifact lib0 job0 (snd (run_reconstruction cfg0 delivery_glb_fails job0 (JObj []) world_completed)) =
     Inr \<lparr>path = artifact_path job0, media_type = ''model/gltf-binary'',
          download_name = ''atlas-'' @ job0 @ ''.glb''\<rparr> \<and>
   artifacts world_processing (artifact_path job0) = None \<and>
   dict_get (stored (snd (run_reconstruction cfg0 delivery_glb_partial job0 (JObj []) world_processing)) job0)
     ''status'' = Some (JStr ''completed'') \<and>
   artifacts (snd (run_reconstruction cfg0 delivery_glb_partial job0 (JObj []) world_processing))
     (artifact_path job0) = Some [] \<and>
   get_artifact lib0 job0 (snd (run_reconstruction cfg0 delivery_glb_partial job0 (JObj []) world_processing)) =
     Inr \<lparr>path = artifact_path job0, media_type = ''model/gltf-binary'',
          download_name = ''atlas-'' @ job0 @ ''.glb''\<rparr>"
proof -
  let ?stale = "run_reconstruction cfg0 delivery_glb_fails job0 (JObj []) world_completed"
  let ?part = "run_reconstruction cfg0 delivery_glb_partial job0 (JObj []) world_processing"
  have h1: "uuid_ok lib0 job0" by (simp add: lib0_def job0_def)
  have h2: "status_files world_processing job0 \<noteq> Some Truncated"
    by (simp add: world_processing_def world0_def)
  have h2': "status_files world_completed job0 \<noteq> Some Truncated"
    by (simp add: world_completed_def world0_def)
  have stale: "artifacts world_completed (artifact_path job0) = Some ''glTF''"
    by (simp add: world_completed_def world0_def)
  have fresh: "artifacts world_processing (artifact_path job0) = None"
    by (simp add: world_processing_def world0_def)
  have m1: "(None :: bytes option) = None \<and> artifacts world_completed (artifact_path job0) = None \<or>
      (\<forall>e. metrics_exception (trimesh_load delivery_glb_fails) = Some e \<longrightarrow> is_Exception e)"
    by (simp add: delivery_glb_fails_def delivery_ok_def metrics_exception_def analyze_def)
  have m2: "(Some [] :: bytes option) = None \<and> artifacts world_processing (artifact_path job0) = None \<or>
      (\<forall>e. metrics_exception (trimesh_load delivery_glb_partial) = Some e \<longrightarrow> is_Exception e)"
    by (simp add: delivery_glb_partial_def delivery_ok_def metrics_exception_def analyze_def)
  from gltf_fallback_run [OF h1 h2' delivery_glb_fails_facts m1, of cfg0 "JObj []"]
  obtain result w' where "?stale = (Inr result, w')"
    and "dict_get (stored w' job0) ''status'' = Some (JStr ''completed'')"
    and "artifacts w' (artifact_path job0) =
       (case None :: bytes option of None \<Rightarrow> artifacts world_completed (artifact_path job0) | Some left \<Rightarrow> Some left)"
    and "get_artifact lib0 job0 w' =
       (if (None :: bytes option) = None \<and> artifacts world_completed (artifact_path job0) = None
        then Inl (HTTPException 404 [Lit ''Artifact file not found''])
        else Inr \<lparr>path = artifact_path job0, media_type = ''model/gltf-binary'',
                  download_name = ''atlas-'' @ job0 @ ''.glb''\<rparr>)"
    by (elim exE conjE) (rule that)
  then have 1: "dict_get (stored (snd ?stale) job0) ''status'' = Some (JStr ''completed'')"
    and 2: "artifacts (snd ?stale) (artifact_path job0) = Some ''glTF''"
    and 3: "get_artifact lib0 job0 (snd ?stale) =
     Inr \<lparr>path = artifact_path job0, media_type = ''model/gltf-binary'',
          download_name = ''atlas-'' @ job0 @ ''.glb''\<rparr>"
    by (simp_all add: stale)
  from gltf_fallback_run [OF h1 h2 delivery_glb_partial_facts m2, of cfg0 "JObj []"]
  obtain result2 w2 where "?part = (Inr result2, w2)"
    and "dict_get (stored w2 job0) ''status'' = Some (JStr ''completed'')"
    and "artifacts w2 (artifact_path job0) =
       (case Some [] :: bytes option of None \<Rightarrow> artifacts world_processing (artifact_path job0) | Some left \<Rightarrow> Some left)"
    and "get_artifact lib0 job0 w2 =
       (if (Some [] :: bytes option) = None \<and> artifacts world_processing (artifact_path job0) = None
        then Inl (HTTPException 404 [Lit ''Artifact file not found''])
        else Inr \<lparr>path = artifact_path job0, media_type = ''model/gltf-binary'',
                  download_name = ''atlas-'' @ job0 @ ''.glb''\<rparr>)"
    by (elim exE conjE) (rule that)
  then have 4: "dict_get (stored (snd ?part) job0) ''status'' = Some (JStr ''completed'')"
    and 5: "artifacts (snd ?part) (artifact_path job0) = Some []"
    and 6: "get_artifact lib0 job0 (snd ?part) =
     Inr \<lparr>path = artifact_path job0, media_type = ''model/gltf-binary'',
          download_name = ''atlas-'' @ job0 @ ''.glb''\<rparr>"
    by simp_all
  from 1 2 3 fresh 4 5 6 show ?thesis by (intro conjI)
qed

lemma write_image_frame:
  "status_files (write_image j n b w) = status_files w"
  "queue (write_image j n b w) = queue w"
  "artifacts (write_image j n b w) = artifacts w"
  "status_log (write_image j n b w) = status_log w"
  "now (write_image j n b w) = now w"
  "elapse (write_image j n b w) = elapse w"
  "ticks (write_image j n b w) = ticks w"
  "j' \<noteq> j \<Longrightarrow> workspaces (write_image j n b w) j' = workspaces w j'"
  by (simp_all add: write_image_def split: option.splits)

lemma rmtree_frame:
  "status_files (rmtree j w) = status_files w"
  "queue (rmtree j w) = queue w"
  "artifacts (rmtree j w) = artifacts w"
  "status_log (rmtree j w) = status_log w"
  "now (rmtree j w) = now w"
  "elapse (rmtree j w) = elapse w"
  "ticks (rmtree j w) = ticks w"
  "j' \<noteq> j \<Longrightarrow> workspaces (rmtree j w) j' = workspaces w j'"
  "workspaces (rmtree j w) j = None"
  by (simp_all add: rmtree_def)

lemma save_uploads_frame:
  "status_files (snd (save_uploads cfg lib j i ups t w)) = status_files w \<and>
   queue (snd (save_uploads cfg lib j i ups t w)) = queue w \<and>
   artifacts (snd (save_uploads cfg lib j i ups t w)) = artifacts w \<and>
   status_log (snd (save_uploads cfg lib j i ups t w)) = status_log w \<and>
   now (snd (save_uploads cfg lib j i ups t w)) = now w \<and>
   elapse (snd (save_uploads cfg lib j i ups t w)) = elapse w \<and>
   ticks (snd (save_uploads cfg lib j i ups t w)) = ticks w \<and>
   (\<forall>j'. j' \<noteq> j \<longrightarrow> workspaces (snd (save_uploads cfg lib j i ups t w)) j' = workspaces w j')"
proof (induction ups arbitrary: i t w)
  case Nil
  show ?case by simp
next
  case (Cons u ups)
  show ?case
    by (simp add: Let_def Cons.IH write_image_frame rmtree_frame)
qed

lemma save_uploads_rejected:
  "fst (save_uploads cfg lib j i ups t w) = Inl err \<Longrightarrow>
   err = too_large cfg \<and> workspaces (snd (save_uploads cfg lib j i ups t w)) j = None"
proof (induction ups arbitrary: i t w)
  case Nil
  then show ?case by simp
next
  case (Cons u ups)
  show ?case
  proof (cases "MAX_UPLOAD_MB cfg * 1024 * 1024 < int (t + length (file_data u))")
    case True
    with Cons.prems show ?thesis
      by (simp add: Let_def too_large_def rmtree_frame)
  next
    case False
    with Cons.prems Cons.IH show ?thesis
      by (simp add: Let_def)
  qed
qed

lemma save_uploads_accepted:
  "int (t + total_bytes ups) \<le> MAX_UPLOAD_MB cfg * 1024 * 1024 \<Longrightarrow>
   fst (save_uploads cfg lib j i ups t w) = Inr (t + total_bytes ups)"
proof (induction ups arbitrary: i t w)
  case Nil
  then show ?case by (simp add: total_bytes_def)
next
  case (Cons u ups)
  from Cons.prems have small: "\<not> MAX_UPLOAD_MB cfg * 1024 * 1024 < int (t + length (file_data u))"
    by (simp add: total_bytes_def)
  have "int (t + length (file_data u) + total_bytes ups) \<le> MAX_UPLOAD_MB cfg * 1024 * 1024"
    using Cons.prems by (simp add: total_bytes_def add.assoc)
  from Cons.IH [OF this] small show ?case
    by (simp add: Let_def total_bytes_def add.assoc)
qed

lemma save_uploads_too_large:
  "ups \<noteq> [] \<Longrightarrow> MAX_UPLOAD_MB cfg * 1024 * 1024 < int (t + total_bytes ups) \<Longrightarrow>
   fst (save_uploads cfg lib j i ups t w) = Inl (too_large cfg)"
proof (induction ups arbitrary: i t w)
  case Nil
  then show ?case by simp
next
  case (Cons u ups)
  show ?case
  proof (cases "MAX_UPLOAD_MB cfg * 1024 * 1024 < int (t + length (file_data u))")
    case True
    then show ?thesis by (simp add: Let_def too_large_def)
  next
    case False
    with Cons.prems(2) have more: "MAX_UPLOAD_MB cfg * 1024 * 1024 <
        int (t + length (file_data u) + total_bytes ups)"
      by (simp add: total_bytes_def add.assoc)
    with False have "ups \<noteq> []" by (auto simp: total_bytes_def)
    from Cons.IH [OF this more] False show ?thesis by (simp add: Let_def)
  qed
qed

lemma makedirs_frame2:
  "queue (makedirs j n w) = queue w"
  "elapse (makedirs j n w) = elapse w"
  "ticks (makedirs j n w) = ticks w"
  "j' \<noteq> j \<Longrightarrow> workspaces (makedirs j n w) j' = workspaces w j'"
  by (simp_all add: makedirs_def Let_def)

lemma create_job_accepted:
  assumes "json_loads lib (if options = [] then ''{}'' else options) = Some opts"
    and "MIN_IMAGES cfg \<le> int (length imgs)" and "int (length imgs) \<le> MAX_IMAGES cfg"
    and "save_uploads cfg lib new_uuid 0 imgs 0 (makedirs new_uuid ''images'' w) = (Inr tot, w2)"
  shows "create_job cfg lib new_uuid task_id imgs options w =
     (Inr [(''job_id'', JStr new_uuid), (''task_id'', JStr task_id),
           (''status'', JStr ''queued''), (''message'', JStr ''Job created successfully'')],
      delay new_uuid opts
        (save_job_status new_uuid
           (dict_literal
              [(''job_id'', JStr new_uuid),
               (''status'', JStr ''queued''),
               (''created_at'', JTime (now w2 + elapse w2 (ticks w2))),
               (''num_images'', JInt (int (length imgs))),
               (''total_size_mb'', JFloat (size_mb tot)),
               (''options'', opts),
               (''progress'', JInt 0),
               (''message'', JStr ''Job queued for processing'')])
           (snd (utcnow w2))))"
  using assms by (simp add: create_job_def Let_def utcnow_def)

text \<open>
  C10. A submission whose options parse, whose image count lies between the minimum and
  the maximum inclusive and whose total size does not exceed the limit is accepted: the
  response carries the new job id, the task is queued, and the status query for that id
  right afterwards returns the record with status \<open>queued\<close> and progress 0.
\<close>

theorem create_job_then_status:
  assumes "json_loads lib (if options = [] then ''{}'' else options) = Some opts"
    and "MIN_IMAGES cfg \<le> int (length imgs)" and "int (length imgs) \<le> MAX_IMAGES cfg"
    and "int (total_bytes imgs) \<le> MAX_UPLOAD_MB cfg * 1024 * 1024"
    and "uuid_ok lib new_uuid"
  shows "\<exists>w' d.
     create_job cfg lib new_uuid task_id imgs options w =
       (Inr [(''job_id'', JStr new_uuid), (''task_id'', JStr task_id),
             (''status'', JStr ''queued''), (''message'', JStr ''Job created successfully'')], w') \<and>
     get_job_status lib new_uuid w' = Inr d \<and>
     dict_get d ''job_id'' = Some (JStr new_uuid) \<and>
     dict_get d ''status'' = Some (JStr ''queued'') \<and>
     dict_get d ''progress'' = Some (JInt 0) \<and>
     dict_get d ''num_images'' = Some (JInt (int (length imgs))) \<and>
     queue w' = queue w @ [(new_uuid, opts)]"
proof -
  define w1 where "w1 = makedirs new_uuid ''images'' w"
  define w2 where "w2 = snd (save_uploads cfg lib new_uuid 0 imgs 0 w1)"
  have "fst (save_uploads cfg lib new_uuid 0 imgs 0 w1) = Inr (0 + total_bytes imgs)"
    by (rule save_uploads_accepted) (use assms(4) in simp)
  then have up: "save_uploads cfg lib new_uuid 0 imgs 0 (makedirs new_uuid ''images'' w) =
      (Inr (total_bytes imgs), w2)"
    unfolding w1_def w2_def by (intro prod_eqI) simp_all
  define d where "d = dict_literal
              [(''job_id'', JStr new_uuid),
               (''status'', JStr ''queued''),
               (''created_at'', JTime (now w2 + elapse w2 (ticks w2))),
               (''num_images'', JInt (int (length imgs))),
               (''total_size_mb'', JFloat (size_mb (total_bytes imgs))),
               (''options'', opts),
               (''progress'', JInt 0),
               (''message'', JStr ''Job queued for processing'')]"
  define w' where "w' = delay new_uuid opts (save_job_status new_uuid d (snd (utcnow w2)))"
  have run: "create_job cfg lib new_uuid task_id imgs options w =
       (Inr [(''job_id'', JStr new_uuid), (''task_id'', JStr task_id),
             (''status'', JStr ''queued''), (''message'', JStr ''Job created successfully'')], w')"
    unfolding w'_def d_def by (rule create_job_accepted [OF assms(1,2,3) up])
  have get: "dict_get d k =
      map_of (rev [(''job_id'', JStr new_uuid),
               (''status'', JStr ''queued''),
               (''created_at'', JTime (now w2 + elapse w2 (ticks w2))),
               (''num_images'', JInt (int (length imgs))),
               (''total_size_mb'', JFloat (size_mb (total_bytes imgs))),
               (''options'', opts),
               (''progress'', JInt 0),
               (''message'', JStr ''Job queued for processing'')]) k" for k
    unfolding d_def dict_get_def by (simp only: map_of_dict_literal)
  have g1: "dict_get d ''job_id'' = Some (JStr new_uuid)" unfolding get by simp
  have g2: "dict_get d ''status'' = Some (JStr ''queued'')" unfolding get by simp
  have g3: "dict_get d ''progress'' = Some (JInt 0)" unfolding get by simp
  have g4: "dict_get d ''num_images'' = Some (JInt (int (length imgs)))" unfolding get by simp
  have ne: "d \<noteq> []" using g2 by (auto simp: dict_get_def)
  have sf: "status_files w' new_uuid = Some (Document d)"
    by (simp add: w'_def delay_def save_job_status_def json_dump_def open_w_def)
  have st: "get_job_status lib new_uuid w' = Inr d"
    using assms(5) sf ne by (simp add: get_job_status_def get_job_status_helper_def json_load_def)
  have "queue w2 = queue w"
    using save_uploads_frame [of cfg lib new_uuid 0 imgs 0 w1]
    by (simp add: w2_def w1_def makedirs_frame2)
  then have q: "queue w' = queue w @ [(new_uuid, opts)]"
    by (simp add: w'_def delay_def save_job_status_def json_dump_def open_w_def utcnow_def Let_def)
  show ?thesis by (rule exI conjI run st g1 g2 g3 g4 q)+
qed

theorem create_job_then_status_witness:
  "json_loads lib0 (if [] = [] then ''{}'' else []) = Some (JObj []) \<and>
   MIN_IMAGES cfg0 \<le> int (length uploads0) \<and> int (length uploads0) \<le> MAX_IMAGES cfg0 \<and>
   int (total_bytes uploads0) \<le> MAX_UPLOAD_MB cfg0 * 1024 * 1024 \<and>
   uuid_ok lib0 job0 \<and>
   (\<exists>w' d.
     create_job cfg0 lib0 job0 ''task-1'' uploads0 [] world0 =
       (Inr [(''job_id'', JStr job0), (''task_id'', JStr ''task-1''),
             (''status'', JStr ''queued''), (''message'', JStr ''Job created successfully'')], w') \<and>
     get_job_status lib0 job0 w' = Inr d \<and>
     dict_get d ''status'' = Some (JStr ''queued'') \<and>
     dict_get d ''progress'' = Some (JInt 0))"
proof -
  have h1: "json_loads lib0 (if [] = [] then ''{}'' else []) = Some (JObj [])"
    by (simp add: lib0_def)
  have h2: "MIN_IMAGES cfg0 \<le> int (length uploads0)" by (simp add: cfg0_def uploads0_def)
  have h3: "int (length uploads0) \<le> MAX_IMAGES cfg0" by (simp add: cfg0_def uploads0_def)
  have h4: "int (total_bytes uploads0) \<le> MAX_UPLOAD_MB cfg0 * 1024 * 1024"
    by (simp add: cfg0_def uploads0_def total_bytes_def)
  have h5: "uuid_ok lib0 job0" by (simp add: lib0_def job0_def)
  from create_job_then_status [OF h1 h2 h3 h4 h5, of "''task-1''" world0]
  obtain w' d where
    a: "create_job cfg0 lib0 job0 ''task-1'' uploads0 [] world0 =
       (Inr [(''job_id'', JStr job0), (''task_id'', JStr ''task-1''),
             (''status'', JStr ''queued''), (''message'', JStr ''Job created successfully'')], w')"
    and b: "get_job_status lib0 job0 w' = Inr d"
    and c: "dict_get d ''status'' = Some (JStr ''queued'')"
    and d: "dict_get d ''progress'' = Some (JInt 0)"
    by (elim exE conjE) (rule that)
  show ?thesis by (rule exI conjI h1 h2 h3 h4 h5 a b c d)+
qed

text \<open>
  C5. A submission that \<^verbatim>\<open>create_job\<close> rejects leaves no status file, no queued task and no
  artifact, and touches no other job's workspace. Rejected for its options or its image
  count, it leaves the storage as it was (no job id is drawn); rejected for its size, the
  workspace of the job id drawn does not exist when the call returns. Malformed options,
  too few or too many images, and (for a non-empty submission) a total size above the
  limit are each rejected.
\<close>

theorem rejected_submission_leaves_nothing:
  "(create_job cfg lib new_uuid task_id imgs options w = (Inl err, w') \<longrightarrow>
      status_files w' = status_files w \<and> queue w' = queue w \<and>
      artifacts w' = artifacts w \<and> status_log w' = status_log w \<and>
      (\<forall>j. j \<noteq> new_uuid \<longrightarrow> workspaces w' j = workspaces w j) \<and>
      (w' = w \<and>
         (err = HTTPException 400 [Lit ''Invalid JSON in options parameter''] \<or>
          err = HTTPException 400
                  [Lit ''Need at least '', Val (JInt (MIN_IMAGES cfg)), Lit '' images for reconstruction''] \<or>
          err = HTTPException 400
                  [Lit ''Maximum '', Val (JInt (MAX_IMAGES cfg)), Lit '' images allowed'']) \<or>
       workspaces w' new_uuid = None \<and>
         err = HTTPException 413
                 [Lit ''Total upload size exceeds '', Val (JInt (MAX_UPLOAD_MB cfg)), Lit ''MB limit''])) \<and>
   (json_loads lib (if options = [] then ''{}'' else options) = None \<longrightarrow>
      create_job cfg lib new_uuid task_id imgs options w =
        (Inl (HTTPException 400 [Lit ''Invalid JSON in options parameter'']), w)) \<and>
   (json_loads lib (if options = [] then ''{}'' else options) \<noteq> None \<and>
    int (length imgs) < MIN_IMAGES cfg \<longrightarrow>
      create_job cfg lib new_uuid task_id imgs options w =
        (Inl (HTTPException 400
           [Lit ''Need at least '', Val (JInt (MIN_IMAGES cfg)), Lit '' images for reconstruction'']), w)) \<and>
   (json_loads lib (if options = [] then ''{}'' else options) \<noteq> None \<and>
    MIN_IMAGES cfg \<le> int (length imgs) \<and> MAX_IMAGES cfg < int (length imgs) \<longrightarrow>
      create_job cfg lib new_uuid task_id imgs options w =
        (Inl (HTTPException 400
           [Lit ''Maximum '', Val (JInt (MAX_IMAGES cfg)), Lit '' images allowed'']), w)) \<and>
   (json_loads lib (if options = [] then ''{}'' else options) \<noteq> None \<and>
    MIN_IMAGES cfg \<le> int (length imgs) \<and> int (length imgs) \<le> MAX_IMAGES cfg \<and> imgs \<noteq> [] \<and>
    MAX_UPLOAD_MB cfg * 1024 * 1024 < int (total_bytes imgs) \<longrightarrow>
      fst (create_job cfg lib new_uuid task_id imgs options w) =
        Inl (HTTPException 413
           [Lit ''Total upload size exceeds '', Val (JInt (MAX_UPLOAD_MB cfg)), Lit ''MB limit'']))"
proof -
  define w1 where "w1 = makedirs new_uuid ''images'' w"
  define up where "up = save_uploads cfg lib new_uuid 0 imgs 0 w1"
  have frame: "status_files (snd up) = status_files w" "queue (snd up) = queue w"
    "artifacts (snd up) = artifacts w" "status_log (snd up) = status_log w"
    "\<And>j. j \<noteq> new_uuid \<Longrightarrow> workspaces (snd up) j = workspaces w j"
    using save_uploads_frame [of cfg lib new_uuid 0 imgs 0 w1]
    by (simp_all add: up_def w1_def makedirs_frame makedirs_frame2)
  have rejected: "e = too_large cfg \<and> workspaces (snd up) new_uuid = None" if "fst up = Inl e" for e
    using that unfolding up_def by (rule save_uploads_rejected)
  have 1: "create_job cfg lib new_uuid task_id imgs options w = (Inl err, w') \<longrightarrow>
      status_files w' = status_files w \<and> queue w' = queue w \<and>
      artifacts w' = artifacts w \<and> status_log w' = status_log w \<and>
      (\<forall>j. j \<noteq> new_uuid \<longrightarrow> workspaces w' j = workspaces w j) \<and>
      (w' = w \<and>
         (err = HTTPException 400 [Lit ''Invalid JSON in options parameter''] \<or>
          err = HTTPException 400
                  [Lit ''Need at least '', Val (JInt (MIN_IMAGES cfg)), Lit '' images for reconstruction''] \<or>
          err = HTTPException 400
                  [Lit ''Maximum '', Val (JInt (MAX_IMAGES cfg)), Lit '' images allowed'']) \<or>
       workspaces w' new_uuid = None \<and>
         err = HTTPException 413
                 [Lit ''Total upload size exceeds '', Val (JInt (MAX_UPLOAD_MB cfg)), Lit ''MB limit''])"
  proof
    assume run: "create_job cfg lib new_uuid task_id imgs options w = (Inl err, w')"
    show "status_files w' = status_files w \<and> queue w' = queue w \<and>
      artifacts w' = artifacts w \<and> status_log w' = status_log w \<and>
      (\<forall>j. j \<noteq> new_uuid \<longrightarrow> workspaces w' j = workspaces w j) \<and>
      (w' = w \<and>
         (err = HTTPException 400 [Lit ''Invalid JSON in options parameter''] \<or>
          err = HTTPException 400
                  [Lit ''Need at least '', Val (JInt (MIN_IMAGES cfg)), Lit '' images for reconstruction''] \<or>
          err = HTTPException 400
                  [Lit ''Maximum '', Val (JInt (MAX_IMAGES cfg)), Lit '' images allowed'']) \<or>
       workspaces w' new_uuid = None \<and>
         err = HTTPException 413
                 [Lit ''Total upload size exceeds '', Val (JInt (MAX_UPLOAD_MB cfg)), Lit ''MB limit''])"
    proof (cases "json_loads lib (if options = [] then ''{}'' else options)")
      case None
      with run show ?thesis by (simp add: create_job_def)
    next
      case (Some opts)
      show ?thesis
      proof (cases "int (length imgs) < MIN_IMAGES cfg \<or> MAX_IMAGES cfg < int (length imgs)")
        case True
        show ?thesis
        proof (cases "int (length imgs) < MIN_IMAGES cfg")
          case few: True
          with run Some have "w' = w" and "err = HTTPException 400
              [Lit ''Need at least '', Val (JInt (MIN_IMAGES cfg)), Lit '' images for reconstruction'']"
            by (simp_all add: create_job_def)
          then show ?thesis by simp
        next
          case False
          with True have "MAX_IMAGES cfg < int (length imgs)" by simp
          with run Some False have "w' = w" and "err = HTTPException 400
              [Lit ''Maximum '', Val (JInt (MAX_IMAGES cfg)), Lit '' images allowed'']"
            by (simp_all add: create_job_def)
          then show ?thesis by simp
        qed
      next
        case False
        obtain r w2 where u: "up = (r, w2)" by (cases up)
        show ?thesis
        proof (cases r)
          case (Inl e)
          with run Some False u have "err = e" "w' = w2"
            by (simp_all add: create_job_def Let_def up_def w1_def)
          moreover from rejected [of e] u Inl
          have "e = too_large cfg" "workspaces w2 new_uuid = None" by simp_all
          ultimately show ?thesis using frame u by (simp add: too_large_def)
        next
          case (Inr tot)
          with run Some False u show ?thesis
            by (simp add: create_job_def Let_def up_def w1_def utcnow_def split: prod.splits)
        qed
      qed
    qed
  qed
  have 2: "json_loads lib (if options = [] then ''{}'' else options) = None \<longrightarrow>
      create_job cfg lib new_uuid task_id imgs options w =
        (Inl (HTTPException 400 [Lit ''Invalid JSON in options parameter'']), w)"
    by (simp add: create_job_def)
  have 3: "json_loads lib (if options = [] then ''{}'' else options) \<noteq> None \<and>
    int (length imgs) < MIN_IMAGES cfg \<longrightarrow>
      create_job cfg lib new_uuid task_id imgs options w =
        (Inl (HTTPException 400
           [Lit ''Need at least '', Val (JInt (MIN_IMAGES cfg)), Lit '' images for reconstruction'']), w)"
    by (auto simp: create_job_def Let_def)
  have 4: "json_loads lib (if options = [] then ''{}'' else options) \<noteq> None \<and>
    MIN_IMAGES cfg \<le> int (length imgs) \<and> MAX_IMAGES cfg < int (length imgs) \<longrightarrow>
      create_job cfg lib new_uuid task_id imgs options w =
        (Inl (HTTPException 400
           [Lit ''Maximum '', Val (JInt (MAX_IMAGES cfg)), Lit '' images allowed'']), w)"
    by (auto simp: create_job_def Let_def)
  have 5: "json_loads lib (if options = [] then ''{}'' else options) \<noteq> None \<and>
    MIN_IMAGES cfg \<le> int (length imgs) \<and> int (length imgs) \<le> MAX_IMAGES cfg \<and> imgs \<noteq> [] \<and>
    MAX_UPLOAD_MB cfg * 1024 * 1024 < int (total_bytes imgs) \<longrightarrow>
      fst (create_job cfg lib new_uuid task_id imgs options w) =
        Inl (HTTPException 413
           [Lit ''Total upload size exceeds '', Val (JInt (MAX_UPLOAD_MB cfg)), Lit ''MB limit''])"
  proof
    assume a: "json_loads lib (if options = [] then ''{}'' else options) \<noteq> None \<and>
      MIN_IMAGES cfg \<le> int (length imgs) \<and> int (length imgs) \<le> MAX_IMAGES cfg \<and> imgs \<noteq> [] \<and>
      MAX_UPLOAD_MB cfg * 1024 * 1024 < int (total_bytes imgs)"
    then obtain opts where p: "json_loads lib (if options = [] then ''{}'' else options) = Some opts"
      by auto
    from a have "fst up = Inl (too_large cfg)"
      unfolding up_def by (intro save_uploads_too_large) simp_all
    then obtain w2 where "up = (Inl (too_large cfg), w2)" by (cases up) auto
    with a p show "fst (create_job cfg lib new_uuid task_id imgs options w) =
        Inl (HTTPException 413
           [Lit ''Total upload size exceeds '', Val (JInt (MAX_UPLOAD_MB cfg)), Lit ''MB limit''])"
      by (simp add: create_job_def Let_def up_def w1_def too_large_def)
  qed
  show ?thesis by (rule conjI 1 2 3 4 5)+
qed

theorem rejected_submission_leaves_nothing_witness:
  "json_loads lib0 (if [] = [] then ''{}'' else []) \<noteq> None \<and>
   MIN_IMAGES cfg_tiny \<le> int (length uploads0) \<and> int (length uploads0) \<le> MAX_IMAGES cfg_tiny \<and>
   uploads0 \<noteq> [] \<and>
   MAX_UPLOAD_MB cfg_tiny * 1024 * 1024 < int (total_bytes uploads0) \<and>
   fst (create_job cfg_tiny lib0 job0 ''task-1'' uploads0 [] world0) =
     Inl (HTTPException 413
           [Lit ''Total upload size exceeds '', Val (JInt (MAX_UPLOAD_MB cfg_tiny)), Lit ''MB limit'']) \<and>
   workspaces (snd (create_job cfg_tiny lib0 job0 ''task-1'' uploads0 [] world0)) job0 = None \<and>
   status_files (snd (create_job cfg_tiny lib0 job0 ''task-1'' uploads0 [] world0)) = status_files world0 \<and>
   queue (snd (create_job cfg_tiny lib0 job0 ''task-1'' uploads0 [] world0)) = queue world0"
proof -
  let ?run = "create_job cfg_tiny lib0 job0 ''task-1'' uploads0 [] world0"
  let ?err = "HTTPException 413
           [Lit ''Total upload size exceeds '', Val (JInt (MAX_UPLOAD_MB cfg_tiny)), Lit ''MB limit'']"
  note T = rejected_submission_leaves_nothing
    [of cfg_tiny lib0 job0 "''task-1''" uploads0 "[]" world0 ?err "snd ?run"]
  have h: "json_loads lib0 (if [] = [] then ''{}'' else []) \<noteq> None \<and>
    MIN_IMAGES cfg_tiny \<le> int (length uploads0) \<and> int (length uploads0) \<le> MAX_IMAGES cfg_tiny \<and>
    uploads0 \<noteq> [] \<and>
    MAX_UPLOAD_MB cfg_tiny * 1024 * 1024 < int (total_bytes uploads0)"
    by (simp add: lib0_def cfg_tiny_def uploads0_def total_bytes_def)
  have f: "fst ?run = Inl ?err"
    by (rule T [THEN conjunct2, THEN conjunct2, THEN conjunct2, THEN conjunct2, THEN mp, OF h])
  then have run: "?run = (Inl ?err, snd ?run)" by (intro prod_eqI) simp_all
  note E = T [THEN conjunct1, THEN mp, OF run]
  have a: "status_files (snd ?run) = status_files world0" by (rule E [THEN conjunct1])
  have b: "queue (snd ?run) = queue world0" by (rule E [THEN conjunct2, THEN conjunct1])
  note c = E [THEN conjunct2, THEN conjunct2, THEN conjunct2, THEN conjunct2, THEN conjunct2]
  from c have d: "workspaces (snd ?run) job0 = None" by simp
  from h f d a b show ?thesis by (intro conjI) simp_all
qed

text \<open>
  \<^verbatim>\<open>delete_job\<close> removes one file of the artifact store, \<^verbatim>\<open>artifacts/<job_id>.glb\<close>: any
  other file there, such as the GLTF file that the fallback of \<^verbatim>\<open>export_glb\<close> writes, stays.
\<close>

lemma delete_job_other_artifacts:
  "p \<noteq> artifact_path j \<Longrightarrow> artifacts (snd (delete_job lib j w)) p = artifacts w p"
  by (simp add: delete_job_def rmtree_def Let_def)
end
